theory Spec2Isabelle
  imports Complex_Main "HOL-Library.Sublist"
begin

section \<open>Strings\<close>

text \<open>
  A Python \<open>str\<close> is a sequence of Unicode code points; it is modelled as the list of
  its code points. ASCII literals are written with \<open>asc\<close>; Japanese literals of the
  source are given as code point lists, with the literal in a comment.
\<close>

type_synonym ustr = "nat list"

definition asc :: "string \<Rightarrow> ustr" where
  "asc s = map of_char s"

text \<open>\<open>kw in s\<close> on strings: \<open>kw\<close> occurs as a contiguous block of \<open>s\<close>.\<close>

fun contains :: "ustr \<Rightarrow> ustr \<Rightarrow> bool" where
  "contains kw [] = (kw = [])"
| "contains kw (c # cs) = (prefix kw (c # cs) \<or> contains kw cs)"

text \<open>\<open>any(k in s for k in ks)\<close>\<close>

definition any_in :: "ustr list \<Rightarrow> ustr \<Rightarrow> bool" where
  "any_in ks s = list_ex (\<lambda>k. contains k s) ks"

section \<open>The standard library\<close>

text \<open>
  A \<open>datetime\<close> value is naive or aware; the integer is its place on the time line.
  Comparing a naive with an aware value raises \<open>TypeError\<close>.
\<close>

datatype pydt = Naive int | Aware int

text \<open>\<open>urlparse(url).netloc\<close>; \<open>None\<close> is the \<open>ValueError\<close> it raises on a malformed
  URL.\<close>

type_synonym urlparser = "ustr \<Rightarrow> ustr option"

text \<open>
  The functions of Python and its standard library whose result depends on the Unicode
  database, on the calendar or on the grammar of URLs are not part of the repository.
  They are parameters of the model, and every function of the model that calls one of
  them takes the library as its first argument:
  \<^item> \<open>str_lower\<close> is \<open>str.lower()\<close>;
  \<^item> \<open>is_decimal\<close> tells the code points that the class \<open>\d\<close> of \<open>re\<close> matches;
  \<^item> \<open>str_isdigit\<close> is \<open>str.isdigit()\<close>;
  \<^item> \<open>py_int\<close> is \<open>int(s)\<close>, \<open>None\<close> being its \<open>ValueError\<close>;
  \<^item> \<open>fromisoformat\<close> is \<open>datetime.fromisoformat\<close>, \<open>None\<close> being its \<open>ValueError\<close>;
  \<^item> \<open>strftime_date\<close> and \<open>strftime_time\<close> are \<open>strftime\<close> with the formats
    \<open>'%Y-%m-%d'\<close> and \<open>'%H:%M'\<close>;
  \<^item> \<open>netloc\<close> is \<open>urlparse(url).netloc\<close>.
\<close>

record pylib =
  str_lower :: "ustr \<Rightarrow> ustr"
  is_decimal :: "nat \<Rightarrow> bool"
  str_isdigit :: "ustr \<Rightarrow> bool"
  py_int :: "ustr \<Rightarrow> int option"
  fromisoformat :: "ustr \<Rightarrow> pydt option"
  strftime_date :: "pydt \<Rightarrow> ustr"
  strftime_time :: "pydt \<Rightarrow> ustr"
  netloc :: urlparser

section \<open>Restaurant records and the availability assessor\<close>

text \<open>
  The restaurant is a dictionary read with \<open>restaurant.get(key, default)\<close>; a field that
  is \<open>None\<close> here is a missing key.
\<close>

record restaurant =
  rest_place_id :: "ustr option"
  rest_name :: "ustr option"
  rest_address :: "ustr option"
  rest_phone_number :: "ustr option"
  rest_website :: "ustr option"

definition get_or :: "'a option \<Rightarrow> 'a \<Rightarrow> 'a" where
  "get_or v d = (case v of None \<Rightarrow> d | Some x \<Rightarrow> x)"

datatype booking_method = web_form | phone_only

text \<open>The fixed texts of the assessment; the source's literal is given with each.\<close>

datatype method_description =
    Desc_chain          \<comment> \<open>online reservation system (chain)\<close>
  | Desc_website_form   \<comment> \<open>website reservation form\<close>
  | Desc_web_or_phone   \<comment> \<open>website or phone reservation\<close>

datatype unavailable_reason =
    Reason_phone_only_upscale   \<comment> \<open>this restaurant takes reservations by phone only (upscale)\<close>
  | Reason_insufficient_info    \<comment> \<open>information on the reservation system is insufficient\<close>

datatype alternative_method =
    Alt_call_directly ustr   \<comment> \<open>call directly: {phone_number}\<close>
  | Alt_booking_sites        \<comment> \<open>reservation sites (Gurunavi, Tabelog, Hot Pepper, ...)\<close>
  | Alt_visit_store          \<comment> \<open>visit the restaurant in person\<close>
  | Alt_official_site        \<comment> \<open>check the restaurant's official site\<close>

text \<open>The returned dictionary; a field that is \<open>None\<close> is a key the dictionary lacks.\<close>

record availability =
  available :: bool
  av_method :: "booking_method option"
  av_method_description :: "method_description option"
  av_confidence :: "real option"
  av_reason :: "unavailable_reason option"
  av_phone_number :: "ustr option"
  av_fallback_phone :: "ustr option"
  av_alternative_methods :: "alternative_method list option"

definition chain_restaurants :: "ustr list" where
  "chain_restaurants =
   [[12377, 12363, 12356, 12425, 12540, 12367],        \<comment> \<open>Skylark (sukairaaku)\<close>
    [12460, 12473, 12488],                             \<comment> \<open>Gusto\<close>
    [12472, 12519, 12490, 12469, 12531],               \<comment> \<open>Jonathan's\<close>
    [12496, 12540, 12511, 12516, 12531],               \<comment> \<open>Bamiyan\<close>
    [12467, 12467, 12473],                             \<comment> \<open>Coco's\<close>
    [12367, 12425, 23551, 21496],                      \<comment> \<open>Kura Sushi\<close>
    [12473, 12471, 12525, 12540],                      \<comment> \<open>Sushiro\<close>
    [12399, 12414, 23551, 21496],                      \<comment> \<open>Hama Sushi\<close>
    [12363, 12387, 12401, 23551, 21496],               \<comment> \<open>Kappa Sushi\<close>
    [12510, 12463, 12489, 12490, 12523, 12489],        \<comment> \<open>McDonald's\<close>
    [12465, 12531, 12479, 12483, 12461, 12540],        \<comment> \<open>Kentucky\<close>
    [12514, 12473, 12496, 12540, 12460, 12540],        \<comment> \<open>Mos Burger\<close>
    [12487, 12491, 12540, 12474],                      \<comment> \<open>Denny's\<close>
    [12525, 12452, 12516, 12523, 12507, 12473, 12488], \<comment> \<open>Royal Host\<close>
    [12499, 12483, 12464, 12508, 12540, 12452],        \<comment> \<open>Big Boy\<close>
    [40165, 36020, 26063],                             \<comment> \<open>Torikizoku\<close>
    [21644, 27665],                                    \<comment> \<open>Watami\<close>
    [39770, 27665],                                    \<comment> \<open>Uotami\<close>
    [30333, 26408, 23627],                             \<comment> \<open>Shirokiya\<close>
    [31505, 31505]]                                    \<comment> \<open>Warawara\<close>"

definition exclusive_phone_only :: "ustr list" where
  "exclusive_phone_only =
   [[21106, 28921],   \<comment> \<open>kappou\<close>
    [25040, 30707],   \<comment> \<open>kaiseki\<close>
    [26009, 20141],   \<comment> \<open>ryoutei\<close>
    [20250, 24109]]   \<comment> \<open>kaiseki (banquet)\<close>"

definition reservation_keywords :: "ustr list" where
  "reservation_keywords =
   [asc ''reservation'', [20104, 32004] \<comment> \<open>yoyaku (reservation)\<close>, asc ''booking'', asc ''table'']"

text \<open>
  \<open>_check_restaurant_booking_availability\<close>. The flags \<open>is_upscale\<close>,
  \<open>is_small_business\<close> and \<open>is_chinese\<close> of the source are only printed, and are left
  out. An empty string is false in a condition.
\<close>

definition check_restaurant_booking_availability :: "pylib \<Rightarrow> restaurant \<Rightarrow> availability" where
  "check_restaurant_booking_availability lib restaurant =
   (let name = str_lower lib (get_or (rest_name restaurant) []);
        website = get_or (rest_website restaurant) [];
        phone_number = get_or (rest_phone_number restaurant) [];
        is_chain = any_in chain_restaurants name
    in if is_chain \<and> (website \<noteq> [] \<or> phone_number \<noteq> []) then
         \<lparr>available = True, av_method = Some web_form,
          av_method_description = Some Desc_chain, av_confidence = Some 0.8,
          av_reason = None, av_phone_number = None, av_fallback_phone = None,
          av_alternative_methods = None\<rparr>
       else if website \<noteq> [] \<and> any_in reservation_keywords (str_lower lib website) then
         \<lparr>available = True, av_method = Some web_form,
          av_method_description = Some Desc_website_form, av_confidence = Some 0.9,
          av_reason = None, av_phone_number = None, av_fallback_phone = None,
          av_alternative_methods = None\<rparr>
       else if phone_number \<noteq> [] then
         (if any_in exclusive_phone_only name then
            \<lparr>available = False, av_method = Some phone_only,
             av_method_description = None, av_confidence = None,
             av_reason = Some Reason_phone_only_upscale,
             av_phone_number = Some phone_number, av_fallback_phone = None,
             av_alternative_methods =
               Some [Alt_call_directly phone_number, Alt_booking_sites, Alt_visit_store]\<rparr>
          else
            \<lparr>available = True, av_method = Some web_form,
             av_method_description = Some Desc_web_or_phone, av_confidence = Some 0.7,
             av_reason = None, av_phone_number = None,
             av_fallback_phone = Some phone_number,
             av_alternative_methods = None\<rparr>)
       else
         \<lparr>available = False, av_method = None,
          av_method_description = None, av_confidence = None,
          av_reason = Some Reason_insufficient_info,
          av_phone_number = None, av_fallback_phone = None,
          av_alternative_methods = Some [Alt_official_site, Alt_visit_store]\<rparr>)"

text \<open>The fields as the assessor reads them: \<open>restaurant.get(key, '')\<close>.\<close>

definition r_name :: "restaurant \<Rightarrow> ustr" where
  "r_name r = get_or (rest_name r) []"

definition r_phone :: "restaurant \<Rightarrow> ustr" where
  "r_phone r = get_or (rest_phone_number r) []"

definition r_website :: "restaurant \<Rightarrow> ustr" where
  "r_website r = get_or (rest_website r) []"

text \<open>The two restaurants of the specification's examples, and one whose website
  spells the keyword in capitals.\<close>

definition kura_sushi_shibuya :: restaurant where
  "kura_sushi_shibuya =
     \<lparr>rest_place_id = None,
      rest_name = Some [12367, 12425, 23551, 21496, 32, 28171, 35895, 24215], \<comment> \<open>Kura Sushi, Shibuya branch\<close>
      rest_address = None,
      rest_phone_number = Some (asc ''03-1111-2222''),
      rest_website = Some (asc ''http://kura-sushi.jp'')\<rparr>"

definition kaiseki_hanami :: restaurant where
  "kaiseki_hanami =
     \<lparr>rest_place_id = None,
      rest_name = Some [25040, 30707, 32, 33457, 35211], \<comment> \<open>Kaiseki Hanami\<close>
      rest_address = None,
      rest_phone_number = Some (asc ''03-0000-0000''),
      rest_website = Some []\<rparr>"

definition bistro_upper_case_site :: restaurant where
  "bistro_upper_case_site =
     \<lparr>rest_place_id = None,
      rest_name = Some (asc ''Bistro''),
      rest_address = None,
      rest_phone_number = Some (asc ''03-1234-5678''),
      rest_website = Some (asc ''HTTP://EXAMPLE.COM/BOOKING'')\<rparr>"


section \<open>Text utilities and the regular expressions of the extractors\<close>

text \<open>
  Whitespace as \<open>str.strip()\<close>, \<open>str.isspace()\<close> and the class \<open>\s\<close> see it.
\<close>

definition is_space :: "nat \<Rightarrow> bool" where
  "is_space c = (c \<in> set [9, 10, 11, 12, 13, 28, 29, 30, 31, 32, 133, 160, 5760,
                            8192, 8193, 8194, 8195, 8196, 8197, 8198, 8199, 8200, 8201, 8202,
                            8232, 8233, 8239, 8287, 12288])"

definition strip :: "ustr \<Rightarrow> ustr" where
  "strip s = rev (dropWhile is_space (rev (dropWhile is_space s)))"

text \<open>
  Regular expressions are written with matcher combinators that follow the backtracking
  order of Python's \<open>re\<close>: a matcher maps a state (the groups captured so far and the
  remaining input) to the list of states after every way of matching, in the order in
  which \<open>re\<close> tries them. The first state of the list is the match that \<open>re\<close> reports.
\<close>

type_synonym mstate = "ustr list \<times> ustr"
type_synonym matcher = "mstate \<Rightarrow> mstate list"

definition lit :: "ustr \<Rightarrow> matcher" where
  "lit w st = (if prefix w (snd st) then [(fst st, drop (length w) (snd st))] else [])"

text \<open>One character of a class.\<close>

definition cls :: "(nat \<Rightarrow> bool) \<Rightarrow> matcher" where
  "cls p st = (case snd st of [] \<Rightarrow> [] | c # cs \<Rightarrow> if p c then [(fst st, cs)] else [])"

text \<open>The inputs left after a run of characters of a class, the longest run first.\<close>

fun runs :: "(nat \<Rightarrow> bool) \<Rightarrow> ustr \<Rightarrow> ustr list" where
  "runs p [] = [[]]"
| "runs p (c # cs) = (if p c then runs p cs @ [c # cs] else [c # cs])"

text \<open>\<open>[class]{lo,hi}\<close>, greedy; \<open>None\<close> as upper bound is no bound.\<close>

definition rep :: "(nat \<Rightarrow> bool) \<Rightarrow> nat \<Rightarrow> nat option \<Rightarrow> matcher" where
  "rep p lo hi st =
     map (Pair (fst st))
       (filter (\<lambda>r. lo \<le> length (snd st) - length r
                     \<and> (case hi of None \<Rightarrow> True | Some h \<Rightarrow> length (snd st) - length r \<le> h))
               (runs p (snd st)))"

text \<open>\<open>[class]+?\<close>: at least one character, the shortest run first.\<close>

definition plus_lazy :: "(nat \<Rightarrow> bool) \<Rightarrow> matcher" where
  "plus_lazy p st =
     map (Pair (fst st))
       (filter (\<lambda>r. 1 \<le> length (snd st) - length r) (rev (runs p (snd st))))"

definition seq :: "matcher \<Rightarrow> matcher \<Rightarrow> matcher" where
  "seq m1 m2 st = concat (map m2 (m1 st))"

definition alt :: "matcher \<Rightarrow> matcher \<Rightarrow> matcher" where
  "alt m1 m2 st = m1 st @ m2 st"

text \<open>\<open>m?\<close>, greedy.\<close>

definition opt :: "matcher \<Rightarrow> matcher" where
  "opt m st = m st @ [st]"

text \<open>A capturing group around a matcher that has no group inside.\<close>

definition grp :: "matcher \<Rightarrow> matcher" where
  "grp m st =
     map (\<lambda>st'. (fst st' @ [take (length (snd st) - length (snd st')) (snd st)], snd st'))
         (m st)"

text \<open>\<open>$\<close>: the end of the input, or just before a final newline.\<close>

definition eos :: matcher where
  "eos st = (if snd st = [] \<or> snd st = [10] then [st] else [])"

fun seqs :: "matcher list \<Rightarrow> matcher" where
  "seqs [] = (\<lambda>st. [st])"
| "seqs (m # ms) = seq m (seqs ms)"

text \<open>A match: the matched text (\<open>group(0)\<close>) and the captured groups.\<close>

type_synonym match = "ustr \<times> ustr list"

text \<open>\<open>re.match\<close>: a match at the start of the input.\<close>

definition re_match :: "matcher \<Rightarrow> ustr \<Rightarrow> match option" where
  "re_match m s =
     (case m ([], s) of [] \<Rightarrow> None
      | st # _ \<Rightarrow> Some (take (length s - length (snd st)) s, fst st))"

text \<open>\<open>re.search\<close>: the match at the leftmost position that has one.\<close>

fun re_search :: "matcher \<Rightarrow> ustr \<Rightarrow> match option" where
  "re_search m [] = re_match m []"
| "re_search m (c # cs) =
     (case re_match m (c # cs) of Some r \<Rightarrow> Some r | None \<Rightarrow> re_search m cs)"

text \<open>\<open>s.replace(w, '')\<close> for a non-empty \<open>w\<close>.\<close>

fun remove_all :: "ustr \<Rightarrow> ustr \<Rightarrow> ustr" where
  "remove_all w [] = []"
| "remove_all w (c # cs) =
     (if w \<noteq> [] \<and> prefix w (c # cs)
      then remove_all w (drop (length w - 1) cs)
      else c # remove_all w cs)"

text \<open>
  \<open>[part for part in re.split(sep+, s) if part]\<close>: the maximal runs of characters that
  are no separators.
\<close>

fun split_parts :: "(nat \<Rightarrow> bool) \<Rightarrow> ustr \<Rightarrow> ustr \<Rightarrow> ustr list" where
  "split_parts sep cur [] = (if cur = [] then [] else [cur])"
| "split_parts sep cur (c # cs) =
     (if sep c then (if cur = [] then split_parts sep [] cs else cur # split_parts sep [] cs)
      else split_parts sep (cur @ [c]) cs)"

text \<open>\<open>' '.join(parts)\<close>\<close>

fun join_space :: "ustr list \<Rightarrow> ustr" where
  "join_space [] = []"
| "join_space [x] = x"
| "join_space (x # y # ys) = x @ [32] @ join_space (y # ys)"


section \<open>Field extractors\<close>

text \<open>Fixed words of the conversation; the source writes them in Japanese.\<close>

definition w_mei :: ustr where "w_mei = [21517]"  \<comment> \<open>counter for people, 'mei'\<close>
definition w_nin :: ustr where "w_nin = [20154]"  \<comment> \<open>counter for people, 'nin'\<close>

definition kanji_numerals :: "(ustr \<times> ustr) list" where
  "kanji_numerals =
     [([19968], asc ''1''), ([20108], asc ''2''), ([19977], asc ''3''),
      ([22235], asc ''4''), ([20116], asc ''5''), ([20845], asc ''6'')]"

text \<open>
  \<open>_extract_party_size\<close>: the first run of digits (\<open>re.findall(r'\d+', s)[0]\<close>) as an
  integer, and \<open>None\<close> when \<open>int\<close> raises; without digits, the branches for the numerals
  one to six in order, each testing the kanji numeral, \<open>n\<close> + 'mei' and \<open>n\<close> + 'nin'.
\<close>

fun party_vocabulary :: "(ustr \<times> ustr) list \<Rightarrow> int \<Rightarrow> ustr \<Rightarrow> int option" where
  "party_vocabulary [] n user_input = None"
| "party_vocabulary (kd # rest) n user_input =
     (if contains (fst kd) user_input \<or> contains (snd kd @ w_mei) user_input
         \<or> contains (snd kd @ w_nin) user_input
      then Some n else party_vocabulary rest (n + 1) user_input)"

definition extract_party_size :: "pylib \<Rightarrow> ustr \<Rightarrow> int option" where
  "extract_party_size lib user_input =
     (case re_search (rep (is_decimal lib) 1 None) user_input of
        Some m \<Rightarrow> py_int lib (fst m)
      | None \<Rightarrow> party_vocabulary kanji_numerals 1 user_input)"

text \<open>The three phone patterns of \<open>_extract_contact_info\<close>, in the order of the source.\<close>

definition pat_mobile :: "pylib \<Rightarrow> matcher" where
  \<comment> \<open>\<open>0[789]0-?\d{4}-?\d{4}\<close>\<close>
  "pat_mobile lib = seqs [lit (asc ''0''), cls (\<lambda>c. c \<in> set (asc ''789'')), lit (asc ''0''),
                          opt (lit (asc ''-'')), rep (is_decimal lib) 4 (Some 4),
                          opt (lit (asc ''-'')), rep (is_decimal lib) 4 (Some 4)]"

definition pat_landline :: "pylib \<Rightarrow> matcher" where
  \<comment> \<open>\<open>0\d{1,4}-?\d{1,4}-?\d{4}\<close>\<close>
  "pat_landline lib = seqs [lit (asc ''0''), rep (is_decimal lib) 1 (Some 4),
                            opt (lit (asc ''-'')), rep (is_decimal lib) 1 (Some 4),
                            opt (lit (asc ''-'')), rep (is_decimal lib) 4 (Some 4)]"

definition pat_digits_only :: "pylib \<Rightarrow> matcher" where
  \<comment> \<open>\<open>\d{10,11}\<close>\<close>
  "pat_digits_only lib = rep (is_decimal lib) 10 (Some 11)"

definition phone_patterns :: "pylib \<Rightarrow> matcher list" where
  "phone_patterns lib = [pat_mobile lib, pat_landline lib, pat_digits_only lib]"

fun first_phone :: "matcher list \<Rightarrow> ustr \<Rightarrow> ustr option" where
  "first_phone [] user_input = None"
| "first_phone (pat # pats) user_input =
     (case re_search pat user_input of
        Some m \<Rightarrow> Some (fst m)
      | None \<Rightarrow> first_phone pats user_input)"

text \<open>The separators of \<open>re.split(r'[,\s]+', name)\<close>, the class also holding the
  ideographic comma U+3001.\<close>

definition is_name_separator :: "nat \<Rightarrow> bool" where
  "is_name_separator c = (c = 12289 \<or> c = 44 \<or> is_space c)"

record contact =
  contact_name :: ustr
  contact_phone :: ustr
  contact_email :: "ustr option"

definition extract_contact_info :: "pylib \<Rightarrow> ustr \<Rightarrow> contact" where
  "extract_contact_info lib user_input =
     (let phone = first_phone (phone_patterns lib) user_input;
          name = (case phone of None \<Rightarrow> user_input
                  | Some ph \<Rightarrow> strip (remove_all ph user_input));
          name_parts = split_parts is_name_separator [] name;
          name' = join_space (filter (\<lambda>part. \<not> str_isdigit lib part) name_parts)
      in \<lparr>contact_name = strip name',
          contact_phone = (case phone of None \<Rightarrow> [] | Some ph \<Rightarrow> strip ph),
          contact_email = None\<rparr>)"

text \<open>The e-mail pattern of \<open>_handle_email_input\<close>, used with \<open>re.match\<close>:
  \<open>^[a-zA-Z0-9._%+-]+@[a-zA-Z0-9.-]+\.[a-zA-Z]{2,}$\<close>\<close>

definition is_ascii_alpha :: "nat \<Rightarrow> bool" where
  "is_ascii_alpha c = ((65 \<le> c \<and> c \<le> 90) \<or> (97 \<le> c \<and> c \<le> 122))"

definition is_ascii_alnum :: "nat \<Rightarrow> bool" where
  "is_ascii_alnum c = (is_ascii_alpha c \<or> (48 \<le> c \<and> c \<le> 57))"

definition email_pattern :: matcher where
  "email_pattern =
     seqs [rep (\<lambda>c. is_ascii_alnum c \<or> c \<in> set (asc ''._%+-'')) 1 None,
           lit (asc ''@''),
           rep (\<lambda>c. is_ascii_alnum c \<or> c \<in> set (asc ''.-'')) 1 None,
           lit (asc ''.''),
           rep is_ascii_alpha 2 None,
           eos]"

text \<open>The labels and patterns of the bulk form (\<open>_handle_bulk_form_data\<close>).\<close>

definition label_datetime :: ustr where "label_datetime = [26085, 26178, 58]"      \<comment> \<open>'nichiji:' (date and time)\<close>
definition label_party :: ustr where "label_party = [20154, 25968, 58]"            \<comment> \<open>'ninzuu:' (number of people)\<close>
definition label_name :: ustr where "label_name = [21517, 21069, 58]"              \<comment> \<open>'namae:' (name)\<close>
definition label_phone :: ustr where "label_phone = [38651, 35441, 58]"            \<comment> \<open>'denwa:' (phone)\<close>
definition label_mail :: ustr where "label_mail = [12513, 12540, 12523, 58]"       \<comment> \<open>'meeru:' (mail)\<close>
definition label_requests :: ustr where "label_requests = [35201, 26395, 58]"      \<comment> \<open>'youbou:' (requests)\<close>
definition w_nashi :: ustr where "w_nashi = [12394, 12375]"                        \<comment> \<open>'nashi' (none)\<close>

definition is_ascii_digit :: "nat \<Rightarrow> bool" where
  "is_ascii_digit c = (48 \<le> c \<and> c \<le> 57)"

definition pat_bulk_datetime :: matcher where
  \<comment> \<open>label, \<open>\s*([0-9-]+)\s+([0-9:]+)\<close>\<close>
  "pat_bulk_datetime =
     seqs [lit label_datetime, rep is_space 0 None,
           grp (rep (\<lambda>c. is_ascii_digit c \<or> c = 45) 1 None),
           rep is_space 1 None,
           grp (rep (\<lambda>c. is_ascii_digit c \<or> c = 58) 1 None)]"

definition pat_bulk_party :: "pylib \<Rightarrow> matcher" where
  \<comment> \<open>label, \<open>\s*(\d+)\<close>, 'mei'\<close>
  "pat_bulk_party lib =
     seqs [lit label_party, rep is_space 0 None, grp (rep (is_decimal lib) 1 None), lit w_mei]"

definition pat_bulk_field :: "ustr \<Rightarrow> matcher" where
  \<comment> \<open>label, \<open>\s*([^,]+)\<close>\<close>
  "pat_bulk_field label =
     seqs [lit label, rep is_space 0 None, grp (rep (\<lambda>c. c \<noteq> 44) 1 None)]"

definition pat_bulk_requests :: matcher where
  \<comment> \<open>label, \<open>\s*(.+?)(?:$|,)\<close>\<close>
  "pat_bulk_requests =
     seqs [lit label_requests, rep is_space 0 None, grp (plus_lazy (\<lambda>c. c \<noteq> 10)),
           alt eos (lit (asc '',''))]"

text \<open>\<open>match.group(i)\<close> for a group that the pattern has.\<close>

definition group :: "match \<Rightarrow> nat \<Rightarrow> ustr" where
  "group m i = (if i = 0 then fst m else snd m ! (i - 1))"


section \<open>Site automation drivers\<close>

text \<open>
  The browser and the pages it shows are outside the program. What a run observes of them
  is given to the model as a record of observations: what each awaited call of the driver
  returns, or that it raises.
\<close>

datatype 'a outcome = Returns 'a | Raises

subsection \<open>The browser held by a driver service\<close>

text \<open>
  \<open>TabelogReservationService\<close> and \<open>ToretaReservationService\<close> hold the same three
  attributes. \<open>svc_launches\<close> is a history variable: the number of browsers launched by
  the service so far.
\<close>

datatype browser_state = No_browser | Browser_open | Browser_closed

record service =
  svc_playwright :: bool
  svc_browser :: browser_state
  svc_page :: bool
  svc_launches :: nat

definition new_service :: service where
  "new_service = \<lparr>svc_playwright = False, svc_browser = No_browser, svc_page = False,
                   svc_launches = 0\<rparr>"

text \<open>Where \<open>initialize\<close> stops: it starts Playwright, launches the browser, opens a
  context and a page, and adds the init script, in this order.\<close>

datatype init_outcome =
    Init_ok
  | Init_start_raises
  | Init_launch_raises
  | Init_context_or_page_raises
  | Init_script_raises

text \<open>\<open>initialize\<close>: the service after the call, and whether the call returned.\<close>

definition initialize :: "init_outcome \<Rightarrow> service \<Rightarrow> service \<times> bool" where
  "initialize io svc =
     (if svc_playwright svc then (svc, True)
      else case io of
        Init_start_raises \<Rightarrow> (svc, False)
      | Init_launch_raises \<Rightarrow> (svc\<lparr>svc_playwright := True\<rparr>, False)
      | Init_context_or_page_raises \<Rightarrow>
          (svc\<lparr>svc_playwright := True, svc_browser := Browser_open,
               svc_launches := svc_launches svc + 1\<rparr>, False)
      | Init_script_raises \<Rightarrow>
          (svc\<lparr>svc_playwright := True, svc_browser := Browser_open, svc_page := True,
               svc_launches := svc_launches svc + 1\<rparr>, False)
      | Init_ok \<Rightarrow>
          (svc\<lparr>svc_playwright := True, svc_browser := Browser_open, svc_page := True,
               svc_launches := svc_launches svc + 1\<rparr>, True))"

text \<open>\<open>close\<close>: closes the browser if there is one. No function of the repository calls it.\<close>

definition close :: "service \<Rightarrow> service" where
  "close svc = (if svc_browser svc = No_browser then svc
                else svc\<lparr>svc_browser := Browser_closed\<rparr>)"

subsection \<open>Results\<close>

datatype error_kind =
    ai_detection
  | not_supported
  | not_tabelog
  | toreta_error
  | exception_error                   \<comment> \<open>'exception'\<close>
  | Err_url_not_tabelog               \<comment> \<open>the URL is not a Tabelog URL\<close>
  | Err_url_not_toreta                \<comment> \<open>the URL is not a Toreta URL\<close>
  | Err_no_net_reservation            \<comment> \<open>no online reservation\<close>
  | Err_reservation_processing        \<comment> \<open>reservation processing error\<close>
  | Err_date_selection_failed         \<comment> \<open>date selection failed\<close>
  | Err_time_party_selection_failed   \<comment> \<open>time and party size selection failed\<close>
  | Err_customer_info_failed          \<comment> \<open>customer information input failed\<close>
  | Err_submission_failed             \<comment> \<open>reservation submission failed\<close>
  | Err_submission_error              \<comment> \<open>reservation submission error\<close>
  | Err_reservation_failed            \<comment> \<open>reservation failed (the wrapper's default)\<close>

datatype driver_message =
    Dmsg_provided_url ustr            \<comment> \<open>the URL provided: {restaurant_url}\<close>
  | Dmsg_guard_triggered              \<comment> \<open>Tabelog's guard against automatic booking was triggered\<close>
  | Dmsg_no_net_reservation           \<comment> \<open>this restaurant does not take online reservations\<close>
  | Dmsg_guard_blocks_completion      \<comment> \<open>the guard keeps the automatic booking from completing\<close>
  | Dmsg_prefilled_finish_in_browser  \<comment> \<open>the details were pre-filled; finish in the browser\<close>
  | Dmsg_exception_text               \<comment> \<open>\<open>str(e)\<close>\<close>
  | Dmsg_date_unavailable ustr        \<comment> \<open>{reservation_date} cannot be booked\<close>
  | Dmsg_time_party_unavailable ustr "int option"
  | Dmsg_customer_info_failed
  | Dmsg_toreta_completed
  | Dmsg_submission_failed
  | Dmsg_only_tabelog_and_toreta      \<comment> \<open>only Tabelog and Toreta are supported\<close>
  | Dmsg_not_a_tabelog_site
  | Dmsg_toreta_exception
  | Dmsg_booking_exception
  | Dmsg_could_not_complete           \<comment> \<open>the wrapper's default message\<close>

record customer_info =
  cust_name :: ustr
  cust_phone :: ustr
  cust_email :: "ustr option"
  cust_special_requests :: "ustr option"

record booking_info =
  bi_date :: ustr
  bi_time :: ustr
  bi_party_size :: "int option"
  bi_customer_name :: ustr
  bi_restaurant_url :: "ustr option"
  bi_phone :: "ustr option"
  bi_email :: "ustr option option"

text \<open>The instruction lists of the Tabelog driver, by the place that builds them, with
  the values they interpolate.\<close>

datatype instructions =
    Instr_book_by_hand booking_info "ustr option"   \<comment> \<open>first gate: book on the site, or call the phone\<close>
  | Instr_finish_in_open_browser booking_info customer_info \<comment> \<open>second gate\<close>
  | Instr_check_prefilled booking_info              \<comment> \<open>after the pre-fill\<close>

datatype reservation_id =
    Rid_from_page ustr     \<comment> \<open>extracted from the completion page\<close>
  | Rid_timestamp          \<comment> \<open>synthesised from the clock\<close>
  | Rid_from_session ustr  \<comment> \<open>'RES-' and the last eight characters of the session id\<close>

datatype booking_via = Via_tabelog_booking

text \<open>
  A result dictionary, of a driver or of the agent's wrappers. A field that is \<open>None\<close>
  (or \<open>False\<close> for the three flags, which are only read by truth value) is a key the
  dictionary lacks. \<open>br_phone_number\<close> is \<open>Some None\<close> when the key holds \<open>None\<close>. The keys
  \<open>current_url\<close>, \<open>details\<close>, \<open>restaurant_name\<close>, \<open>booking_details\<close> and
  \<open>supported_systems\<close>, which nothing reads, are left out.
\<close>

record booking_result =
  br_success :: bool
  br_error :: "error_kind option"
  br_message :: "driver_message option"
  br_semi_automated :: bool
  br_browser_opened :: bool
  br_manual_booking_required :: bool
  br_restaurant_url :: "ustr option"
  br_phone_number :: "ustr option option"
  br_booking_info :: "booking_info option"
  br_instructions :: "instructions option"
  br_alternative :: "ustr option option option"
  br_reservation_id :: "reservation_id option option"
  br_method :: "booking_via option"
  br_steps_completed :: bool
  br_website :: "ustr option"

definition failure_result :: "error_kind \<Rightarrow> driver_message \<Rightarrow> booking_result" where
  "failure_result e m =
     \<lparr>br_success = False, br_error = Some e, br_message = Some m,
      br_semi_automated = False, br_browser_opened = False,
      br_manual_booking_required = False, br_restaurant_url = None,
      br_phone_number = None, br_booking_info = None, br_instructions = None,
      br_alternative = None, br_reservation_id = None, br_method = None,
      br_steps_completed = False, br_website = None\<rparr>"

text \<open>What the outermost \<open>except Exception\<close> of both drivers returns.\<close>

definition processing_error :: booking_result where
  "processing_error = failure_result Err_reservation_processing Dmsg_exception_text"

text \<open>The lines a run writes to the log about the fields it tried to fill.\<close>

datatype log_entry =
    Log_date_filled | Log_date_by_hand
  | Log_time_filled | Log_time_by_hand
  | Log_party_filled | Log_party_by_hand
  | Log_customer_filled | Log_customer_by_hand
  | Log_toreta_step nat
  | Log_toreta_party_selected
  | Log_toreta_time_selected
  | Log_toreta_time_not_selected
  | Log_toreta_completed


subsection \<open>The Tabelog driver\<close>

definition is_tabelog_url :: "urlparser \<Rightarrow> ustr \<Rightarrow> bool option" where
  "is_tabelog_url parse_netloc url =
     (if url = [] then Some False
      else case parse_netloc url of None \<Rightarrow> None
           | Some n \<Rightarrow> Some (contains (asc ''tabelog.com'') n))"

text \<open>
  What the calendar shows to the loop of \<open>_select_date\<close> that looks for the month of the
  reservation, after a number of clicks on the button for the next month.
\<close>

datatype calendar_obs =
    Cal_shows_month          \<comment> \<open>the header names the wanted month\<close>
  | Cal_other_month_next     \<comment> \<open>another month, and a button for the next month\<close>
  | Cal_other_month_no_next  \<comment> \<open>another month, and no button for the next month\<close>
  | Cal_header_gone          \<comment> \<open>no header is found\<close>
  | Cal_raises               \<comment> \<open>a query or the click raises\<close>

text \<open>
  What a run of the Tabelog driver observes. The helpers \<open>_select_time\<close>,
  \<open>_select_party_size\<close>, \<open>_skip_course_selection\<close>, \<open>_skip_seat_selection\<close> and
  \<open>_fill_customer_info\<close> loop over fixed lists of selectors only and run their body under
  \<open>try ... except Exception: return False\<close>; a run observes the truth value each returns.
  \<open>_select_date\<close> is observed in three parts: \<open>tb_date_before_calendar\<close> is \<open>Some b\<close>
  when the helper returns \<open>b\<close> before it reaches the header of the calendar (\<open>True\<close> after
  filling a date input, \<open>False\<close> after an exception) and \<open>None\<close> when it reaches it;
  \<open>tb_calendar i\<close> is what the calendar shows after \<open>i\<close> clicks on the next month; and
  \<open>tb_day_clicked\<close> tells whether, after the search for the month, one of the selectors
  of the day is found and clicked.
  \<open>tb_entry_visible i\<close> tells whether \<open>wait_for_selector\<close> finds the \<open>i\<close>-th of the nine
  entries of \<open>reservation_button_selectors\<close> visible before its timeout.
\<close>

record tabelog_page =
  tb_init :: init_outcome
  tb_url_after_open :: ustr
  tb_gate_phone :: "ustr option outcome"
  tb_entry_visible :: "nat \<Rightarrow> bool"
  tb_fallback_phone :: "ustr option outcome"
  tb_click :: "unit outcome"
  tb_url_after_click :: ustr
  tb_date_before_calendar :: "bool option"
  tb_calendar :: "nat \<Rightarrow> calendar_obs"
  tb_day_clicked :: bool
  tb_select_time :: bool
  tb_select_party_size :: bool
  tb_skip_course_selection :: bool
  tb_skip_seat_selection :: bool
  tb_fill_customer_info :: bool

definition ai_request_booking :: ustr where
  "ai_request_booking = asc ''ai_request_booking''"

definition basic_booking_info :: "ustr \<Rightarrow> ustr \<Rightarrow> int option \<Rightarrow> customer_info \<Rightarrow> booking_info" where
  "basic_booking_info reservation_date reservation_time party_size customer_info =
     \<lparr>bi_date = reservation_date, bi_time = reservation_time, bi_party_size = party_size,
      bi_customer_name = cust_name customer_info,
      bi_restaurant_url = None, bi_phone = None, bi_email = None\<rparr>"

text \<open>
  The loop \<open>while month_year not in current_text\<close> of \<open>_select_date\<close>, after \<open>i\<close> clicks:
  it ends when the header names the month, when there is no button for the next month or
  no header any more, and by an exception; otherwise it clicks and goes on. Nothing bounds
  the number of rounds: the result is \<open>None\<close> when the loop does not end, \<open>Some True\<close>
  when it ends without exception and \<open>Some False\<close> when it ends by an exception.
\<close>

partial_function (option) find_month :: "(nat \<Rightarrow> calendar_obs) \<Rightarrow> nat \<Rightarrow> bool option" where
  "find_month calendar i =
     (if calendar i = Cal_other_month_next then find_month calendar (Suc i)
      else if calendar i = Cal_raises then Some False
      else Some True)"

text \<open>\<open>_select_date\<close>: the truth value it returns, \<open>None\<close> when it does not return.\<close>

definition select_date :: "tabelog_page \<Rightarrow> bool option" where
  "select_date page =
     (case tb_date_before_calendar page of
        Some b \<Rightarrow> Some b
      | None \<Rightarrow>
          (case find_month (tb_calendar page) 0 of
             None \<Rightarrow> None
           | Some False \<Rightarrow> Some False
           | Some True \<Rightarrow> Some (tb_day_clicked page)))"

text \<open>The block that tries to fill the form, under its own \<open>try ... except Exception\<close>:
  the lines it logs, given what \<open>_select_date\<close> returned. Each helper is called whatever
  the helpers before it returned.\<close>

definition tabelog_prefill :: "tabelog_page \<Rightarrow> bool \<Rightarrow> log_entry list" where
  "tabelog_prefill page date_success =
     [if date_success then Log_date_filled else Log_date_by_hand,
      if tb_select_time page then Log_time_filled else Log_time_by_hand,
      if tb_select_party_size page then Log_party_filled else Log_party_by_hand,
      if tb_fill_customer_info page then Log_customer_filled else Log_customer_by_hand]"

text \<open>
  \<open>TabelogReservationService.make_reservation\<close> is given in two parts. The first part
  runs from the start of the function to the second check for the block marker: it is
  \<open>Inl\<close> of the result, the service and the log when the function returns there, and
  \<open>Inr\<close> of the service when both gates are passed and the pre-fill begins. A page
  attribute that is unset makes the first read of \<open>self.page.url\<close> raise.
\<close>

definition tabelog_gates ::
  "urlparser \<Rightarrow> tabelog_page \<Rightarrow> service \<Rightarrow> ustr \<Rightarrow> ustr \<Rightarrow> ustr \<Rightarrow> int option
     \<Rightarrow> customer_info \<Rightarrow> (booking_result \<times> service \<times> log_entry list) + service" where
  "tabelog_gates parse_netloc page svc restaurant_url reservation_date
       reservation_time party_size customer_info =
     (let (svc', initialized) = initialize (tb_init page) svc;
          info = basic_booking_info reservation_date reservation_time party_size customer_info
      in if \<not> initialized then Inl (processing_error, svc', [])
         else case is_tabelog_url parse_netloc restaurant_url of
           None \<Rightarrow> Inl (processing_error, svc', [])
         | Some False \<Rightarrow>
             Inl (failure_result Err_url_not_tabelog (Dmsg_provided_url restaurant_url),
                  svc', [])
         | Some True \<Rightarrow>
             if \<not> svc_page svc' then Inl (processing_error, svc', [])
             else if contains ai_request_booking (tb_url_after_open page) then
               (case tb_gate_phone page of
                  Raises \<Rightarrow> Inl (processing_error, svc', [])
                | Returns phone_number \<Rightarrow>
                    Inl ((failure_result ai_detection Dmsg_guard_triggered)
                       \<lparr>br_manual_booking_required := True,
                        br_restaurant_url := Some restaurant_url,
                        br_phone_number := Some phone_number,
                        br_booking_info := Some info,
                        br_instructions := Some (Instr_book_by_hand info phone_number)\<rparr>,
                     svc', []))
             else if \<not> list_ex (tb_entry_visible page) [0..<9] then
               (case tb_fallback_phone page of
                  Raises \<Rightarrow> Inl (processing_error, svc', [])
                | Returns phone_number \<Rightarrow>
                    Inl ((failure_result Err_no_net_reservation Dmsg_no_net_reservation)
                       \<lparr>br_phone_number := Some phone_number,
                        br_manual_booking_required := True,
                        br_booking_info := Some info,
                        br_alternative := Some (Some phone_number)\<rparr>,
                     svc', []))
             else case tb_click page of
                  Raises \<Rightarrow> Inl (processing_error, svc', [])
                | Returns _ \<Rightarrow>
                    if contains ai_request_booking (tb_url_after_click page) then
                      Inl ((failure_result ai_detection Dmsg_guard_blocks_completion)
                             \<lparr>br_semi_automated := True, br_browser_opened := True,
                              br_booking_info := Some info,
                              br_instructions :=
                                Some (Instr_finish_in_open_browser info customer_info)\<rparr>,
                           svc', [])
                    else Inr svc')"

text \<open>The result that \<open>make_reservation\<close> returns after the pre-fill.\<close>

definition prefilled_result :: "ustr \<Rightarrow> ustr \<Rightarrow> ustr \<Rightarrow> int option \<Rightarrow> customer_info \<Rightarrow> booking_result" where
  "prefilled_result restaurant_url reservation_date reservation_time party_size customer_info =
     (let info' = (basic_booking_info reservation_date reservation_time party_size customer_info)
                    \<lparr>bi_restaurant_url := Some restaurant_url,
                     bi_phone := Some (cust_phone customer_info),
                     bi_email := Some (cust_email customer_info)\<rparr>
      in \<lparr>br_success = False, br_error = None,
          br_message = Some Dmsg_prefilled_finish_in_browser,
          br_semi_automated = True, br_browser_opened = True,
          br_manual_booking_required = False, br_restaurant_url = None,
          br_phone_number = None, br_booking_info = Some info',
          br_instructions = Some (Instr_check_prefilled info'),
          br_alternative = None, br_reservation_id = None,
          br_method = None, br_steps_completed = False,
          br_website = None\<rparr>)"

text \<open>
  \<open>TabelogReservationService.make_reservation\<close>: the result, the service afterwards and
  the log; \<open>None\<close> when the call does not return, which is when the date helper of the
  pre-fill does not. The \<open>finally\<close> clause of the source is \<open>pass\<close> (its call of \<open>close\<close>
  is commented out), so the service is returned as \<open>initialize\<close> left it.
\<close>

definition tabelog_make_reservation ::
  "urlparser \<Rightarrow> tabelog_page \<Rightarrow> service \<Rightarrow> ustr \<Rightarrow> ustr \<Rightarrow> ustr \<Rightarrow> int option
     \<Rightarrow> customer_info \<Rightarrow> (booking_result \<times> service \<times> log_entry list) option" where
  "tabelog_make_reservation parse_netloc page svc restaurant_url reservation_date
       reservation_time party_size customer_info =
     (case tabelog_gates parse_netloc page svc restaurant_url reservation_date
             reservation_time party_size customer_info of
        Inl returned \<Rightarrow> Some returned
      | Inr svc' \<Rightarrow>
          (case select_date page of
             None \<Rightarrow> None
           | Some date_success \<Rightarrow>
               Some (prefilled_result restaurant_url reservation_date reservation_time
                       party_size customer_info,
                     svc', tabelog_prefill page date_success)))"

subsection \<open>The Toreta driver\<close>

definition is_toreta_url :: "ustr \<Rightarrow> bool" where
  "is_toreta_url url =
     (if url = [] then False
      else contains (asc ''toreta.in'') url \<or> contains (asc ''toreta-reserve'') url)"

text \<open>One pass of a selector loop of \<open>_select_time_and_party_toreta\<close>: what happens with
  one candidate selector. In both loops an exception moves on to the next candidate.\<close>

datatype party_try =
    Party_not_found         \<comment> \<open>\<open>wait_for_selector\<close> times out\<close>
  | Party_action_raises     \<comment> \<open>found, but selecting, checking or clicking raises\<close>
  | Party_selected

datatype time_try =
    Time_not_found
  | Time_disabled           \<comment> \<open>found, with the attribute \<open>disabled\<close>\<close>
  | Time_action_raises      \<comment> \<open>found, but the click on it or on the next button raises\<close>
  | Time_clicked

datatype confirm_outcome =
    Confirm_completed reservation_id   \<comment> \<open>a completion marker, in the page or in the URL\<close>
  | Confirm_no_evidence                \<comment> \<open>no completion marker\<close>
  | Confirm_raises

text \<open>
  What a run of the Toreta driver observes. \<open>_select_date_toreta\<close> and
  \<open>_fill_customer_info_toreta\<close> run their body under \<open>try ... except Exception: return
  False\<close>; a run observes the truth value each returns. \<open>tr_open\<close> is the opening of the
  restaurant page with its screenshot. The loop over \<open>initial_button_selectors\<close> catches
  every exception and has no part in the result; it is left out.
\<close>

record toreta_page =
  tr_init :: init_outcome
  tr_open :: "unit outcome"
  tr_date_selected :: bool
  tr_party_try :: "nat \<Rightarrow> party_try"
  tr_time_try :: "nat \<Rightarrow> time_try"
  tr_info_filled :: bool
  tr_confirm :: confirm_outcome

text \<open>\<open>_select_time_and_party_toreta\<close>: four candidates for the party size, tried until
  one is selected; then five candidates for the time, the first one clicked ends the
  helper with \<open>True\<close>; \<open>False\<close> when none is.\<close>

definition select_time_and_party_toreta :: "toreta_page \<Rightarrow> bool \<times> log_entry list" where
  "select_time_and_party_toreta page =
     (let party_log = (if list_ex (\<lambda>i. tr_party_try page i = Party_selected) [0..<4]
                       then [Log_toreta_party_selected] else [])
      in if list_ex (\<lambda>i. tr_time_try page i = Time_clicked) [0..<5]
         then (True, party_log @ [Log_toreta_time_selected])
         else (False, party_log @ [Log_toreta_time_not_selected]))"

text \<open>\<open>_confirm_and_submit_toreta\<close>\<close>

definition confirm_and_submit_toreta :: "toreta_page \<Rightarrow> booking_result" where
  "confirm_and_submit_toreta page =
     (case tr_confirm page of
        Confirm_completed rid \<Rightarrow>
          \<lparr>br_success = True, br_error = None, br_message = Some Dmsg_toreta_completed,
           br_semi_automated = False, br_browser_opened = False,
           br_manual_booking_required = False, br_restaurant_url = None,
           br_phone_number = None, br_booking_info = None, br_instructions = None,
           br_alternative = None, br_reservation_id = Some (Some rid), br_method = None,
           br_steps_completed = False, br_website = None\<rparr>
      | Confirm_no_evidence \<Rightarrow> failure_result Err_submission_failed Dmsg_submission_failed
      | Confirm_raises \<Rightarrow> failure_result Err_submission_error Dmsg_exception_text)"

text \<open>
  \<open>ToretaReservationService.make_reservation\<close>. Here too the \<open>finally\<close> clause is
  \<open>pass\<close>, with the call of \<open>close\<close> commented out.
\<close>

definition toreta_make_reservation ::
  "toreta_page \<Rightarrow> service \<Rightarrow> ustr \<Rightarrow> ustr \<Rightarrow> ustr \<Rightarrow> int option \<Rightarrow> customer_info
     \<Rightarrow> booking_result \<times> service \<times> log_entry list" where
  "toreta_make_reservation page svc restaurant_url reservation_date reservation_time
       party_size customer_info =
     (let (svc', initialized) = initialize (tr_init page) svc
      in if \<not> initialized then (processing_error, svc', [])
         else if \<not> is_toreta_url restaurant_url then
           (failure_result Err_url_not_toreta (Dmsg_provided_url restaurant_url), svc', [])
         else if \<not> svc_page svc' \<or> tr_open page = Raises then (processing_error, svc', [])
         else if \<not> tr_date_selected page then
           (failure_result Err_date_selection_failed (Dmsg_date_unavailable reservation_date),
            svc', [Log_toreta_step 1])
         else
           (let (time_selected, log2) = select_time_and_party_toreta page
            in if \<not> time_selected then
                 (failure_result Err_time_party_selection_failed
                    (Dmsg_time_party_unavailable reservation_time party_size),
                  svc', [Log_toreta_step 1, Log_toreta_step 2] @ log2)
               else if \<not> tr_info_filled page then
                 (failure_result Err_customer_info_failed Dmsg_customer_info_failed,
                  svc', [Log_toreta_step 1, Log_toreta_step 2] @ log2 @ [Log_toreta_step 3])
               else
                 (let confirmation_result = confirm_and_submit_toreta page;
                      log4 = [Log_toreta_step 1, Log_toreta_step 2] @ log2
                               @ [Log_toreta_step 3, Log_toreta_step 4]
                  in if br_success confirmation_result then
                       (confirmation_result\<lparr>br_message := Some Dmsg_toreta_completed\<rparr>,
                        svc', log4 @ [Log_toreta_completed])
                     else (confirmation_result, svc', log4))))"


section \<open>Sessions\<close>

datatype step =
    initial | datetime_input | party_size_input | contact_info_input | email_input
  | special_requests_input | confirmation | completed | semi_automated | ai_blocked

text \<open>The dictionary \<open>session['data']\<close>; it always has these five keys, and \<open>None\<close> is
  Python's \<open>None\<close>.\<close>

record reservation_data =
  d_datetime :: "ustr option"
  d_party_size :: "int option"
  d_contact :: "contact option"
  d_email :: "ustr option"
  d_special_requests :: "ustr option"

record session =
  s_restaurant :: restaurant
  s_data :: reservation_data
  s_step :: step
  s_availability :: availability
  s_booking_result :: "booking_result option"

text \<open>The agent's dictionary of sessions and the two module-level driver services.\<close>

record agent =
  reservation_sessions :: "ustr \<rightharpoonup> session"
  tabelog_service :: service
  toreta_service :: service

subsection \<open>The collaborators\<close>

text \<open>What the language model answers to one request: the content of its message, or an
  exception of the client.\<close>

datatype llm_reply = Llm_content ustr | Llm_raises

text \<open>What one call of the agent observes of the world: the clock (\<open>datetime.now()\<close>, a
  naive value, and its text in a session id), the identity of the agent object, the answer
  of the language model, and the pages the drivers see.\<close>

record world =
  w_now :: int
  w_clock_text :: ustr
  w_object_id :: ustr
  w_llm :: llm_reply
  w_tabelog :: tabelog_page
  w_toreta :: toreta_page

datatype py_exception = ValueError | TypeError | KeyError | IndexError

subsection \<open>Messages and responses\<close>

text \<open>What a confirmation message shows.\<close>

record summary =
  sum_restaurant :: "ustr option"
  sum_address :: "ustr option"
  sum_datetime :: pydt
  sum_party_size :: "int option"
  sum_name :: ustr
  sum_phone :: ustr
  sum_email :: "ustr option"
  sum_requests :: "ustr option"

datatype missing_field = Missing_datetime | Missing_party_size | Missing_name | Missing_phone
  | Missing_email

text \<open>A phone number as a message shows it: the number, the text \<open>None\<close> when the
  value is \<open>None\<close>, or the default text that asks to contact the restaurant.\<close>

datatype shown_phone = Phone ustr | Phone_none_value | Phone_ask_restaurant

text \<open>The messages of the agent, one constructor for each text or f-string of the source,
  with the values the f-string interpolates.\<close>

datatype message =
    Msg_not_available "ustr option" "unavailable_reason option" "ustr option"
        "alternative_method list option"
  | Msg_reservation_started "ustr option" "ustr option" "ustr option"
  | Msg_session_not_found_restart     \<comment> \<open>session not found; start a new reservation\<close>
  | Msg_unknown_step step
  | Msg_datetime_not_understood
  | Msg_datetime_accepted pydt
  | Msg_datetime_error py_exception
  | Msg_party_size_not_understood
  | Msg_party_size_accepted int
  | Msg_party_size_error py_exception
  | Msg_contact_not_understood
  | Msg_contact_accepted ustr ustr
  | Msg_contact_error py_exception
  | Msg_email_invalid
  | Msg_email_accepted ustr
  | Msg_email_error py_exception
  | Msg_confirm_summary summary       \<comment> \<open>the summary, 'proceed with this reservation?'\<close>
  | Msg_confirm_summary_again summary \<comment> \<open>the summary, with the advice to phone afterwards\<close>
  | Msg_special_requests_error py_exception
  | Msg_bulk_missing "missing_field list"
  | Msg_bulk_error py_exception
  | Msg_booking_completed "reservation_id option" summary bool shown_phone
  | Msg_semi_browser_opened "booking_info option" "instructions option"
  | Msg_semi_manual_booking "driver_message option" ustr "booking_info option" shown_phone
  | Msg_ai_detection shown_phone "booking_info option" ustr
  | Msg_not_supported_site ustr shown_phone ustr
  | Msg_not_supported_no_site shown_phone
  | Msg_not_tabelog shown_phone
  | Msg_could_not_complete "driver_message option" "error_kind option" shown_phone
  | Msg_cancelled
  | Msg_which_item_to_edit
  | Msg_confirmation_not_understood
  | Msg_confirmation_error py_exception

text \<open>The suggested replies, one constructor for each literal of the source.\<close>

datatype menu_option =
    Opt_dinner_today | Opt_lunch_tomorrow | Opt_this_weekend | Opt_enter_datetime
  | Opt_people nat | Opt_other
  | Opt_sample_contact nat | Opt_enter_myself
  | Opt_none | Opt_birthday | Opt_anniversary | Opt_quiet_seat | Opt_window_seat
  | Opt_execute_booking | Opt_edit | Opt_cancel
  | Opt_finished_in_browser | Opt_book_by_phone | Opt_find_other_restaurant
  | Opt_open_tabelog_site | Opt_call_now | Opt_search_other_restaurant
  | Opt_use_other_booking_site
  | Opt_try_again | Opt_phone_guidance | Opt_quit
  | Opt_change_datetime | Opt_change_party_size | Opt_change_contact | Opt_change_requests
  | Opt_back_to_confirmation

definition datetime_options :: "menu_option list" where
  "datetime_options = [Opt_dinner_today, Opt_lunch_tomorrow, Opt_this_weekend, Opt_enter_datetime]"

definition party_size_options :: "menu_option list" where
  "party_size_options = [Opt_people 1, Opt_people 2, Opt_people 3, Opt_people 4, Opt_people 5,
                         Opt_people 6, Opt_other]"

definition contact_options :: "menu_option list" where
  "contact_options = [Opt_sample_contact 1, Opt_sample_contact 2, Opt_sample_contact 3,
                      Opt_enter_myself]"

definition special_requests_options :: "menu_option list" where
  "special_requests_options = [Opt_none, Opt_birthday, Opt_anniversary, Opt_quiet_seat,
                               Opt_window_seat, Opt_enter_myself]"

definition confirmation_options :: "menu_option list" where
  "confirmation_options = [Opt_execute_booking, Opt_edit, Opt_cancel]"

text \<open>The value under the key \<open>error\<close>: a flag, or the text of an error.\<close>

datatype error_value = Flag bool | Error_text message

text \<open>
  The dictionary a turn returns. A field that is \<open>None\<close> (\<open>False\<close> for
  \<open>resp_restart_needed\<close> and \<open>resp_cancelled\<close>) is a key the dictionary lacks.
  \<open>resp_booking_info = Some None\<close> is the empty dictionary that stands in for a missing
  \<open>booking_info\<close>. The key \<open>reservation_details\<close> of the success response repeats values
  of the message and is left out.
\<close>

record response =
  resp_session_id :: "ustr option"
  resp_message :: "message option"
  resp_step :: "step option"
  resp_error :: "error_value option"
  resp_options :: "menu_option list option"
  resp_success :: "bool option"
  resp_processing :: "bool option"
  resp_restart_needed :: bool
  resp_cancelled :: bool
  resp_browser_opened :: "bool option"
  resp_booking_info :: "booking_info option option"
  resp_restaurant_url :: "ustr option"
  resp_phone_number :: "ustr option option"
  resp_booking_result :: "booking_result option"

definition reply :: "message \<Rightarrow> step \<Rightarrow> response" where
  "reply m stp =
     \<lparr>resp_session_id = None, resp_message = Some m, resp_step = Some stp,
      resp_error = None, resp_options = None, resp_success = None, resp_processing = None,
      resp_restart_needed = False, resp_cancelled = False, resp_browser_opened = None,
      resp_booking_info = None, resp_restaurant_url = None, resp_phone_number = None,
      resp_booking_result = None\<rparr>"


section \<open>The conversation state machine\<close>

text \<open>
  \<open>_parse_datetime_with_ai\<close>. The stripped answer is returned when it is not the
  rejection token, \<open>fromisoformat\<close> parses it, and the parsed value is later than
  \<open>now\<close>. An aware value makes the comparison with the naive \<open>now\<close> raise, which the
  bare \<open>except\<close> turns into \<open>None\<close>, as it does with the \<open>ValueError\<close> of the parser.
\<close>

definition parse_datetime_with_ai :: "pylib \<Rightarrow> int \<Rightarrow> llm_reply \<Rightarrow> ustr option" where
  "parse_datetime_with_ai lib now answer =
     (case answer of
        Llm_raises \<Rightarrow> None
      | Llm_content content \<Rightarrow>
          (let result = strip content
           in if result = asc ''INVALID'' then None
              else case fromisoformat lib result of
                     None \<Rightarrow> None
                   | Some (Aware t) \<Rightarrow> None
                   | Some (Naive t) \<Rightarrow> if t \<le> now then None else Some result))"

definition put_session :: "agent \<Rightarrow> ustr \<Rightarrow> session \<Rightarrow> agent" where
  "put_session ag session_id sess =
     ag\<lparr>reservation_sessions := (reservation_sessions ag)(session_id \<mapsto> sess)\<rparr>"

text \<open>
  The values of a confirmation message, in the order in which the source computes them:
  the date is parsed first (\<open>TypeError\<close> on \<open>None\<close>, \<open>ValueError\<close> on a text that does
  not parse), then the contact is read (\<open>TypeError\<close> on \<open>None\<close>).
  \<open>data.get('special_requests') or 'nashi'\<close> shows an empty request as none.
\<close>

definition make_summary :: "pylib \<Rightarrow> restaurant \<Rightarrow> reservation_data \<Rightarrow> py_exception + summary" where
  "make_summary lib restaurant data =
     (case d_datetime data of
        None \<Rightarrow> Inl TypeError
      | Some iso_text \<Rightarrow>
         (case fromisoformat lib iso_text of
            None \<Rightarrow> Inl ValueError
          | Some dt \<Rightarrow>
             (case d_contact data of
                None \<Rightarrow> Inl TypeError
              | Some c \<Rightarrow>
                  Inr \<lparr>sum_restaurant = rest_name restaurant,
                       sum_address = rest_address restaurant,
                       sum_datetime = dt,
                       sum_party_size = d_party_size data,
                       sum_name = contact_name c,
                       sum_phone = contact_phone c,
                       sum_email = d_email data,
                       sum_requests = (case d_special_requests data of
                                         None \<Rightarrow> None
                                       | Some r \<Rightarrow> if r = [] then None else Some r)\<rparr>)))"

text \<open>
  \<open>_handle_bulk_form_data\<close>. An exception of \<open>int\<close> is raised while the new data
  are built, before they are assigned. The session's data and step are assigned before
  the date is parsed for the message; when that raises, the \<open>except\<close> clause answers
  with the step \<open>datetime_input\<close>.
\<close>

definition handle_bulk_form_data :: "pylib \<Rightarrow> agent \<Rightarrow> ustr \<Rightarrow> ustr \<Rightarrow> response \<times> agent" where
  "handle_bulk_form_data lib ag session_id form_data =
     (let datetime_match = re_search pat_bulk_datetime form_data;
          party_size_match = re_search (pat_bulk_party lib) form_data;
          name_match = re_search (pat_bulk_field label_name) form_data;
          phone_match = re_search (pat_bulk_field label_phone) form_data;
          email_match = re_search (pat_bulk_field label_mail) form_data;
          requests_match = re_search pat_bulk_requests form_data;
          missing_fields =
            (if datetime_match = None then [Missing_datetime] else [])
            @ (if party_size_match = None then [Missing_party_size] else [])
            @ (if name_match = None then [Missing_name] else [])
            @ (if phone_match = None then [Missing_phone] else [])
            @ (if email_match = None then [Missing_email] else []);
          failed = (\<lambda>e. (reply (Msg_bulk_error e) datetime_input)
                          \<lparr>resp_session_id := Some session_id, resp_error := Some (Flag True)\<rparr>)
      in if missing_fields \<noteq> [] then
           ((reply (Msg_bulk_missing missing_fields) datetime_input)
              \<lparr>resp_session_id := Some session_id, resp_error := Some (Flag True)\<rparr>, ag)
         else
           (case (datetime_match, party_size_match, name_match, phone_match, email_match) of
              (Some dm, Some pm, Some nm, Some phm, Some em) \<Rightarrow>
                (let iso_datetime = group dm 1 @ asc ''T'' @ group dm 2 @ asc '':00''
                 in case reservation_sessions ag session_id of
                      None \<Rightarrow> (failed KeyError, ag)
                    | Some sess \<Rightarrow>
                      if py_int lib (group pm 1) = None then (failed ValueError, ag)
                      else
                       (let data =
                              \<lparr>d_datetime = Some iso_datetime,
                               d_party_size = py_int lib (group pm 1),
                               d_contact = Some \<lparr>contact_name = strip (group nm 1),
                                                 contact_phone = strip (group phm 1),
                                                 contact_email = Some (strip (group em 1))\<rparr>,
                               d_email = Some (strip (group em 1)),
                               d_special_requests =
                                 (case requests_match of
                                    None \<Rightarrow> None
                                  | Some rm \<Rightarrow> if strip (group rm 1) \<noteq> w_nashi
                                               then Some (strip (group rm 1)) else None)\<rparr>;
                            ag' = put_session ag session_id
                                    (sess\<lparr>s_data := data, s_step := confirmation\<rparr>)
                        in case make_summary lib (s_restaurant sess) data of
                             Inl e \<Rightarrow> (failed e, ag')
                           | Inr sm \<Rightarrow>
                               ((reply (Msg_confirm_summary_again sm) confirmation)
                                  \<lparr>resp_session_id := Some session_id,
                                   resp_options := Some confirmation_options,
                                   resp_error := Some (Flag False),
                                   resp_processing := Some False\<rparr>, ag')))
            | _ \<Rightarrow> (failed TypeError, ag)))"

text \<open>\<open>_handle_datetime_input\<close>\<close>

definition handle_datetime_input ::
  "pylib \<Rightarrow> world \<Rightarrow> agent \<Rightarrow> ustr \<Rightarrow> ustr \<Rightarrow> response \<times> agent" where
  "handle_datetime_input lib w ag session_id user_input =
     (if prefix label_datetime user_input \<and> contains label_party user_input
         \<and> contains label_name user_input
      then handle_bulk_form_data lib ag session_id user_input
      else
        (let parsed_datetime = parse_datetime_with_ai lib (w_now w) (w_llm w);
             failed = (\<lambda>e. (reply (Msg_datetime_error e) datetime_input)
                             \<lparr>resp_error := Some (Flag True),
                              resp_options := Some datetime_options\<rparr>)
         in if parsed_datetime = None \<or> parsed_datetime = Some [] then
              ((reply Msg_datetime_not_understood datetime_input)
                 \<lparr>resp_error := Some (Flag True), resp_options := Some datetime_options\<rparr>, ag)
            else
              (case reservation_sessions ag session_id of
                 None \<Rightarrow> (failed KeyError, ag)
               | Some sess \<Rightarrow>
                  (let ag' = put_session ag session_id
                               (sess\<lparr>s_data := (s_data sess)\<lparr>d_datetime := parsed_datetime\<rparr>,
                                     s_step := party_size_input\<rparr>)
                   in case fromisoformat lib (the parsed_datetime) of
                        None \<Rightarrow> (failed ValueError, ag')
                      | Some dt \<Rightarrow>
                          ((reply (Msg_datetime_accepted dt) party_size_input)
                             \<lparr>resp_session_id := Some session_id,
                              resp_options := Some party_size_options,
                              resp_error := Some (Flag False),
                              resp_processing := Some False\<rparr>, ag')))))"

text \<open>\<open>_handle_party_size_input\<close>; \<open>not party_size\<close> holds for \<open>None\<close> and for 0.\<close>

definition handle_party_size_input :: "pylib \<Rightarrow> agent \<Rightarrow> ustr \<Rightarrow> ustr \<Rightarrow> response \<times> agent" where
  "handle_party_size_input lib ag session_id user_input =
     (let party_size = extract_party_size lib user_input
      in if party_size = None \<or> party_size = Some 0 then
           ((reply Msg_party_size_not_understood party_size_input)
              \<lparr>resp_session_id := Some session_id, resp_error := Some (Flag True),
               resp_options := Some party_size_options\<rparr>, ag)
         else
           (case reservation_sessions ag session_id of
              None \<Rightarrow>
                ((reply (Msg_party_size_error KeyError) party_size_input)
                   \<lparr>resp_error := Some (Flag True),
                    resp_options := Some party_size_options\<rparr>, ag)
            | Some sess \<Rightarrow>
                ((reply (Msg_party_size_accepted (the party_size)) contact_info_input)
                   \<lparr>resp_session_id := Some session_id,
                    resp_options := Some contact_options,
                    resp_error := Some (Flag False), resp_processing := Some False\<rparr>,
                 put_session ag session_id
                   (sess\<lparr>s_data := (s_data sess)\<lparr>d_party_size := party_size\<rparr>,
                         s_step := contact_info_input\<rparr>))))"

text \<open>\<open>_handle_contact_info_input\<close>\<close>

definition handle_contact_info_input :: "pylib \<Rightarrow> agent \<Rightarrow> ustr \<Rightarrow> ustr \<Rightarrow> response \<times> agent" where
  "handle_contact_info_input lib ag session_id user_input =
     (let contact_info = extract_contact_info lib user_input
      in if contact_name contact_info = [] \<or> contact_phone contact_info = [] then
           ((reply Msg_contact_not_understood contact_info_input)
              \<lparr>resp_session_id := Some session_id, resp_options := Some contact_options,
               resp_error := Some (Flag True), resp_processing := Some False\<rparr>, ag)
         else
           (case reservation_sessions ag session_id of
              None \<Rightarrow>
                ((reply (Msg_contact_error KeyError) contact_info_input)
                   \<lparr>resp_error := Some (Flag True)\<rparr>, ag)
            | Some sess \<Rightarrow>
                ((reply (Msg_contact_accepted (contact_name contact_info)
                           (contact_phone contact_info)) email_input)
                   \<lparr>resp_session_id := Some session_id, resp_options := Some [],
                    resp_error := Some (Flag False), resp_processing := Some False\<rparr>,
                 put_session ag session_id
                   (sess\<lparr>s_data := (s_data sess)\<lparr>d_contact := Some contact_info\<rparr>,
                         s_step := email_input\<rparr>))))"

text \<open>
  \<open>_handle_email_input\<close>. \<open>session['data']['email']\<close> is assigned first; the assignment
  into the contact dictionary raises \<open>TypeError\<close> when the contact is \<open>None\<close>.
\<close>

definition handle_email_input :: "agent \<Rightarrow> ustr \<Rightarrow> ustr \<Rightarrow> response \<times> agent" where
  "handle_email_input ag session_id user_input =
     (let email = strip user_input;
          failed = (\<lambda>e. (reply (Msg_email_error e) email_input)\<lparr>resp_error := Some (Flag True)\<rparr>)
      in if re_match email_pattern email = None then
           ((reply Msg_email_invalid email_input)
              \<lparr>resp_session_id := Some session_id, resp_error := Some (Flag True),
               resp_processing := Some False\<rparr>, ag)
         else
           (case reservation_sessions ag session_id of
              None \<Rightarrow> (failed KeyError, ag)
            | Some sess \<Rightarrow>
               (let data1 = (s_data sess)\<lparr>d_email := Some email\<rparr>
                in case d_contact data1 of
                     None \<Rightarrow> (failed TypeError, put_session ag session_id (sess\<lparr>s_data := data1\<rparr>))
                   | Some c \<Rightarrow>
                       ((reply (Msg_email_accepted email) special_requests_input)
                          \<lparr>resp_session_id := Some session_id,
                           resp_options := Some special_requests_options,
                           resp_error := Some (Flag False), resp_processing := Some False\<rparr>,
                        put_session ag session_id
                          (sess\<lparr>s_data := data1\<lparr>d_contact := Some (c\<lparr>contact_email := Some email\<rparr>)\<rparr>,
                                s_step := special_requests_input\<rparr>)))))"

text \<open>
  \<open>_handle_special_requests_input\<close>. The request and the step are assigned first; the
  message is built afterwards, and an exception there is answered with the step
  \<open>special_requests_input\<close>.
\<close>

definition no_request_words :: "ustr list" where
  "no_request_words = [w_nashi, asc ''none'', []]"

definition handle_special_requests_input ::
  "pylib \<Rightarrow> agent \<Rightarrow> ustr \<Rightarrow> ustr \<Rightarrow> response \<times> agent" where
  "handle_special_requests_input lib ag session_id user_input =
     (let failed = (\<lambda>e. (reply (Msg_special_requests_error e) special_requests_input)
                          \<lparr>resp_error := Some (Flag True)\<rparr>)
      in case reservation_sessions ag session_id of
           None \<Rightarrow> (failed KeyError, ag)
         | Some sess \<Rightarrow>
            (let data = (s_data sess)
                          \<lparr>d_special_requests :=
                             (if str_lower lib user_input \<notin> set no_request_words
                              then Some user_input else None)\<rparr>;
                 ag' = put_session ag session_id (sess\<lparr>s_data := data, s_step := confirmation\<rparr>)
             in case make_summary lib (s_restaurant sess) data of
                  Inl e \<Rightarrow> (failed e, ag')
                | Inr sm \<Rightarrow>
                    ((reply (Msg_confirm_summary sm) confirmation)
                       \<lparr>resp_session_id := Some session_id,
                        resp_options := Some confirmation_options,
                        resp_error := Some (Flag False), resp_processing := Some False\<rparr>,
                     ag')))"


subsection \<open>Dispatch to the drivers\<close>

definition exception_result :: "error_kind \<Rightarrow> driver_message \<Rightarrow> service \<Rightarrow> booking_result \<times> service" where
  "exception_result e m svc = (failure_result e m, svc)"

text \<open>
  \<open>_execute_tabelog_booking\<close>. Before the driver is called the date is parsed and the
  contact is read; an exception there gives the result with the error \<open>'exception'\<close>.
  A failure of the driver is handed on with its error, its message and its alternative
  only (\<open>hand_on_tabelog_result\<close>). The result is \<open>None\<close> when the driver does not return.
\<close>

definition hand_on_tabelog_result :: "booking_result \<Rightarrow> booking_result" where
  "hand_on_tabelog_result result =
     (if br_success result then
        (failure_result exception_error Dmsg_booking_exception)
          \<lparr>br_success := True, br_error := None, br_message := None,
           br_reservation_id :=
             Some (case br_reservation_id result of None \<Rightarrow> None | Some r \<Rightarrow> r),
           br_method := Some Via_tabelog_booking,
           br_steps_completed := True\<rparr>
      else
        (failure_result
           (get_or (br_error result) Err_reservation_failed)
           (get_or (br_message result) Dmsg_could_not_complete))
          \<lparr>br_alternative :=
             Some (case br_alternative result of None \<Rightarrow> None | Some a \<Rightarrow> a)\<rparr>)"

definition execute_tabelog_booking ::
  "pylib \<Rightarrow> tabelog_page \<Rightarrow> service \<Rightarrow> restaurant \<Rightarrow> reservation_data
     \<Rightarrow> (booking_result \<times> service) option" where
  "execute_tabelog_booking lib page svc restaurant data =
     (let website = get_or (rest_website restaurant) []
      in if \<not> contains (asc ''tabelog.com'') website then
           Some (failure_result not_tabelog Dmsg_not_a_tabelog_site, svc)
         else case d_datetime data of
           None \<Rightarrow> Some (exception_result exception_error Dmsg_booking_exception svc)
         | Some iso_text \<Rightarrow>
            (case fromisoformat lib iso_text of
               None \<Rightarrow> Some (exception_result exception_error Dmsg_booking_exception svc)
             | Some datetime_obj \<Rightarrow>
                (case d_contact data of
                   None \<Rightarrow> Some (exception_result exception_error Dmsg_booking_exception svc)
                 | Some c \<Rightarrow>
                    (case tabelog_make_reservation (netloc lib) page svc website
                            (strftime_date lib datetime_obj) (strftime_time lib datetime_obj)
                            (d_party_size data)
                            \<lparr>cust_name = contact_name c, cust_phone = contact_phone c,
                             cust_email = Some (get_or (contact_email c) []),
                             cust_special_requests = None\<rparr> of
                       None \<Rightarrow> None
                     | Some (result, svc', written) \<Rightarrow>
                         Some (hand_on_tabelog_result result, svc')))))"

text \<open>\<open>_execute_toreta_booking\<close>: the driver's result is returned as it is.\<close>

definition execute_toreta_booking ::
  "pylib \<Rightarrow> toreta_page \<Rightarrow> service \<Rightarrow> restaurant \<Rightarrow> reservation_data
     \<Rightarrow> booking_result \<times> service" where
  "execute_toreta_booking lib page svc restaurant data =
     (case d_datetime data of
        None \<Rightarrow> exception_result toreta_error Dmsg_toreta_exception svc
      | Some iso_text \<Rightarrow>
         (case fromisoformat lib iso_text of
            None \<Rightarrow> exception_result toreta_error Dmsg_toreta_exception svc
          | Some datetime_obj \<Rightarrow>
             (case d_contact data of
                None \<Rightarrow> exception_result toreta_error Dmsg_toreta_exception svc
              | Some c \<Rightarrow>
                 (let (result, svc', log) =
                        toreta_make_reservation page svc (get_or (rest_website restaurant) [])
                          (strftime_date lib datetime_obj) (strftime_time lib datetime_obj)
                          (d_party_size data)
                          \<lparr>cust_name = contact_name c, cust_phone = contact_phone c,
                           cust_email = d_email data,
                           cust_special_requests = d_special_requests data\<rparr>
                  in (result, svc')))))"

text \<open>The result for a website of neither family.\<close>

definition not_supported_result :: "ustr \<Rightarrow> booking_result" where
  "not_supported_result website =
     (failure_result not_supported Dmsg_only_tabelog_and_toreta)\<lparr>br_website := Some website\<rparr>"

subsection \<open>The confirmation step\<close>

text \<open>\<open>s.split('/')\<close>\<close>

fun split_slash :: "ustr \<Rightarrow> ustr \<Rightarrow> ustr list" where
  "split_slash cur [] = [cur]"
| "split_slash cur (c # cs) =
     (if c = 47 then cur # split_slash [] cs else split_slash (cur @ [c]) cs)"

definition shown_phone_of :: "ustr option option \<Rightarrow> restaurant \<Rightarrow> shown_phone" where
  \<comment> \<open>\<open>booking_result.get('phone_number', restaurant.get('phone_number', default text))\<close>\<close>
  "shown_phone_of from_result restaurant =
     (case from_result of
        Some None \<Rightarrow> Phone_none_value
      | Some (Some p) \<Rightarrow> Phone p
      | None \<Rightarrow> (case rest_phone_number restaurant of
                   None \<Rightarrow> Phone_ask_restaurant | Some p \<Rightarrow> Phone p))"

text \<open>
  \<open>_create_error_message\<close>. For an unsupported site whose address holds a slash, the
  domain is the third part of the address split at slashes, and \<open>IndexError\<close> when there
  are fewer than three parts.
\<close>

definition create_error_message :: "booking_result \<Rightarrow> restaurant \<Rightarrow> py_exception + message" where
  "create_error_message booking_result restaurant =
     (let restaurant_url = get_or (br_restaurant_url booking_result)
                             (get_or (rest_website restaurant) [])
      in if br_semi_automated booking_result \<and> br_browser_opened booking_result then
           Inr (Msg_semi_browser_opened (br_booking_info booking_result)
                  (br_instructions booking_result))
         else if br_semi_automated booking_result
                 \<and> br_manual_booking_required booking_result then
           Inr (Msg_semi_manual_booking (br_message booking_result) restaurant_url
                  (br_booking_info booking_result)
                  (case br_phone_number booking_result of
                     None \<Rightarrow> Phone_ask_restaurant
                   | Some None \<Rightarrow> Phone_none_value
                   | Some (Some p) \<Rightarrow> Phone p))
         else if br_error booking_result = Some ai_detection then
           Inr (Msg_ai_detection (shown_phone_of (br_phone_number booking_result) restaurant)
                  (br_booking_info booking_result) restaurant_url)
         else if br_error booking_result = Some not_supported then
           (case br_website booking_result of
              None \<Rightarrow> Inr (Msg_not_supported_no_site (shown_phone_of None restaurant))
            | Some website \<Rightarrow>
                if website = [] then Inr (Msg_not_supported_no_site (shown_phone_of None restaurant))
                else if contains (asc ''/'') website then
                  (case split_slash [] website of
                     a # b # domain # _ \<Rightarrow>
                       Inr (Msg_not_supported_site domain (shown_phone_of None restaurant) website)
                   | _ \<Rightarrow> Inl IndexError)
                else Inr (Msg_not_supported_site website (shown_phone_of None restaurant) website))
         else if br_error booking_result = Some not_tabelog then
           Inr (Msg_not_tabelog (shown_phone_of None restaurant))
         else
           Inr (Msg_could_not_complete (br_message booking_result) (br_error booking_result)
                  (shown_phone_of None restaurant)))"

text \<open>The lines of \<open>_handle_confirmation\<close> that turn a failed booking result into the
  response of the turn.\<close>

definition failed_booking_response ::
  "ustr \<Rightarrow> booking_result \<Rightarrow> restaurant \<Rightarrow> message \<Rightarrow> response" where
  "failed_booking_response session_id booking_result restaurant error_message =
     (let restaurant_url = get_or (br_restaurant_url booking_result)
                             (get_or (rest_website restaurant) [])
      in if br_semi_automated booking_result then
           (reply error_message semi_automated)
             \<lparr>resp_session_id := Some session_id, resp_success := Some False,
              resp_error := Some (Flag False), resp_processing := Some False,
              resp_browser_opened := Some (br_browser_opened booking_result),
              resp_booking_info := Some (br_booking_info booking_result),
              resp_restaurant_url := Some restaurant_url,
              resp_options := Some [Opt_finished_in_browser, Opt_book_by_phone,
                                    Opt_find_other_restaurant]\<rparr>
         else if br_error booking_result = Some ai_detection then
           (reply error_message ai_blocked)
             \<lparr>resp_session_id := Some session_id, resp_success := Some False,
              resp_error := Some (Flag True), resp_processing := Some False,
              resp_booking_info := Some (br_booking_info booking_result),
              resp_restaurant_url := Some restaurant_url,
              resp_phone_number :=
                Some (case br_phone_number booking_result of
                        None \<Rightarrow> Some (get_or (rest_phone_number restaurant) [])
                      | Some p \<Rightarrow> p),
              resp_options := Some [Opt_open_tabelog_site, Opt_call_now,
                                    Opt_search_other_restaurant, Opt_use_other_booking_site]\<rparr>
         else
           (reply error_message completed)
             \<lparr>resp_session_id := Some session_id, resp_success := Some False,
              resp_error := Some (Flag True), resp_processing := Some False,
              resp_options := Some [Opt_try_again, Opt_phone_guidance, Opt_quit]\<rparr>)"

text \<open>The keywords of the confirmation step.\<close>

definition w_jikkou :: ustr where "w_jikkou = [23455, 34892]"   \<comment> \<open>'jikkou' (execute)\<close>
definition w_hai :: ustr where "w_hai = [12399, 12356]"         \<comment> \<open>'hai' (yes)\<close>
definition w_check_mark :: ustr where "w_check_mark = [9989]"   \<comment> \<open>the check mark emoji\<close>
definition w_kyanseru :: ustr where "w_kyanseru = [12461, 12515, 12531, 12475, 12523]" \<comment> \<open>'kyanseru' (cancel)\<close>
definition w_shuusei :: ustr where "w_shuusei = [20462, 27491]" \<comment> \<open>'shuusei' (edit)\<close>
definition w_zokkou :: ustr where "w_zokkou = [32154, 34892]"   \<comment> \<open>'zokkou' (continue)\<close>

definition is_execute :: "pylib \<Rightarrow> ustr \<Rightarrow> bool" where
  "is_execute lib user_input =
     (contains w_jikkou user_input \<or> contains w_hai user_input
      \<or> contains (asc ''ok'') (str_lower lib user_input) \<or> contains (asc ''yes'') (str_lower lib user_input)
      \<or> contains w_check_mark user_input)"

definition is_cancel :: "pylib \<Rightarrow> ustr \<Rightarrow> bool" where
  "is_cancel lib user_input =
     (contains w_kyanseru user_input \<or> contains (asc ''cancel'') (str_lower lib user_input))"

definition is_edit :: "pylib \<Rightarrow> ustr \<Rightarrow> bool" where
  "is_edit lib user_input =
     (contains w_shuusei user_input \<or> contains (asc ''edit'') (str_lower lib user_input))"

definition is_continue :: "ustr \<Rightarrow> bool" where
  "is_continue user_input = (contains w_zokkou user_input \<or> strip user_input = [])"

text \<open>The booking result of an execute turn, and the services afterwards: the inline
  dispatch of \<open>_handle_confirmation\<close> on the website of the restaurant; \<open>None\<close> when the
  driver does not return.\<close>

definition dispatch_booking ::
  "pylib \<Rightarrow> world \<Rightarrow> agent \<Rightarrow> restaurant \<Rightarrow> reservation_data
     \<Rightarrow> (booking_result \<times> agent) option" where
  "dispatch_booking lib w ag restaurant data =
     (let website = get_or (rest_website restaurant) []
      in if contains (asc ''tabelog.com'') website then
           (case execute_tabelog_booking lib (w_tabelog w) (tabelog_service ag) restaurant data of
              None \<Rightarrow> None
            | Some (booking_result, svc') \<Rightarrow>
                Some (booking_result, ag\<lparr>tabelog_service := svc'\<rparr>))
         else if contains (asc ''toreta.in'') website \<or> contains (asc ''toreta-reserve'') website then
           (let (booking_result, svc') =
                  execute_toreta_booking lib (w_toreta w) (toreta_service ag) restaurant data
            in Some (booking_result, ag\<lparr>toreta_service := svc'\<rparr>))
         else Some (not_supported_result website, ag))"

text \<open>\<open>_handle_confirmation\<close> is given in three parts: the execute branch after the
  dispatch, the other branches, and the function itself. Every exception in it is answered
  by its \<open>except\<close> clause with the step \<open>confirmation\<close>.\<close>

definition confirmation_failed :: "py_exception \<Rightarrow> response" where
  "confirmation_failed e =
     (reply (Msg_confirmation_error e) confirmation)\<lparr>resp_error := Some (Flag True)\<rparr>"

text \<open>The execute branch of \<open>_handle_confirmation\<close> once the booking result is there.\<close>

definition answer_booking ::
  "pylib \<Rightarrow> ustr \<Rightarrow> session \<Rightarrow> booking_result \<times> agent \<Rightarrow> response \<times> agent" where
  "answer_booking lib session_id sess booked =
               (let failed = confirmation_failed;
                    restaurant = s_restaurant sess;
                    data = s_data sess;
                    (booking_result, ag1) = booked
                in if br_success booking_result then
                     (let ag2 = put_session ag1 session_id
                                  (sess\<lparr>s_step := completed,
                                        s_booking_result := Some booking_result\<rparr>)
                      in case make_summary lib restaurant data of
                           Inl e \<Rightarrow> (failed e, ag2)
                         | Inr sm \<Rightarrow>
                             ((reply (Msg_booking_completed
                                        (case br_reservation_id booking_result of
                                           None \<Rightarrow> Some (Rid_from_session
                                                           (drop (length session_id - 8) session_id))
                                         | Some r \<Rightarrow> r)
                                        sm (br_steps_completed booking_result)
                                        (shown_phone_of None restaurant))
                                     completed)
                                \<lparr>resp_session_id := Some session_id,
                                 resp_success := Some True,
                                 resp_booking_result := Some booking_result,
                                 resp_error := Some (Flag False),
                                 resp_processing := Some False\<rparr>, ag2))
                   else
                     (case create_error_message booking_result restaurant of
                        Inl e \<Rightarrow> (failed e, ag1)
                      | Inr error_message \<Rightarrow>
                          (failed_booking_response session_id booking_result restaurant
                             error_message, ag1)))"

text \<open>The branches of \<open>_handle_confirmation\<close> for the other inputs.\<close>

definition handle_confirmation_other ::
  "pylib \<Rightarrow> agent \<Rightarrow> ustr \<Rightarrow> ustr \<Rightarrow> response \<times> agent" where
  "handle_confirmation_other lib ag session_id user_input =
     (let failed = confirmation_failed
      in if is_cancel lib user_input then
           (if session_id \<in> dom (reservation_sessions ag) then
              ((reply Msg_cancelled completed)\<lparr>resp_cancelled := True\<rparr>,
               ag\<lparr>reservation_sessions := (reservation_sessions ag)(session_id := None)\<rparr>)
            else (failed KeyError, ag))
         else if is_edit lib user_input then
           ((reply Msg_which_item_to_edit confirmation)
              \<lparr>resp_options := Some [Opt_change_datetime, Opt_change_party_size,
                                     Opt_change_contact, Opt_change_requests,
                                     Opt_back_to_confirmation]\<rparr>, ag)
         else if is_continue user_input then
           (case reservation_sessions ag session_id of
              None \<Rightarrow> (failed KeyError, ag)
            | Some sess \<Rightarrow>
               (case make_summary lib (s_restaurant sess) (s_data sess) of
                  Inl e \<Rightarrow> (failed e, ag)
                | Inr sm \<Rightarrow>
                    ((reply (Msg_confirm_summary_again sm) confirmation)
                       \<lparr>resp_session_id := Some session_id,
                        resp_options := Some confirmation_options,
                        resp_error := Some (Flag False),
                        resp_processing := Some False\<rparr>, ag)))
         else
           ((reply Msg_confirmation_not_understood confirmation)
              \<lparr>resp_session_id := Some session_id,
               resp_options := Some confirmation_options,
               resp_error := Some (Flag True)\<rparr>, ag))"

text \<open>\<open>_handle_confirmation\<close>; \<open>None\<close> when the call does not return.\<close>

definition handle_confirmation ::
  "pylib \<Rightarrow> world \<Rightarrow> agent \<Rightarrow> ustr \<Rightarrow> ustr \<Rightarrow> (response \<times> agent) option" where
  "handle_confirmation lib w ag session_id user_input =
     (if is_execute lib user_input then
        (case reservation_sessions ag session_id of
           None \<Rightarrow> Some (confirmation_failed KeyError, ag)
         | Some sess \<Rightarrow>
             (case dispatch_booking lib w ag (s_restaurant sess) (s_data sess) of
                None \<Rightarrow> None
              | Some booked \<Rightarrow> Some (answer_booking lib session_id sess booked)))
      else Some (handle_confirmation_other lib ag session_id user_input))"


subsection \<open>The operations of the agent\<close>

text \<open>
  \<open>process_reservation_step\<close>; \<open>None\<close> when the call does not return. Each handler
  answers its own exceptions, so the outer \<open>except\<close> clause of the source is never
  entered. A stored step other than the seven of the branches is answered as unknown.
\<close>

definition session_not_found :: response where
  "session_not_found =
     \<lparr>resp_session_id = None, resp_message = None, resp_step = None,
      resp_error = Some (Error_text Msg_session_not_found_restart),
      resp_options = None, resp_success = None, resp_processing = None,
      resp_restart_needed = True, resp_cancelled = False, resp_browser_opened = None,
      resp_booking_info = None, resp_restaurant_url = None, resp_phone_number = None,
      resp_booking_result = None\<rparr>"

definition unknown_step :: "ustr \<Rightarrow> step \<Rightarrow> response" where
  "unknown_step session_id current_step =
     \<lparr>resp_session_id = Some session_id, resp_message = None, resp_step = None,
      resp_error = Some (Error_text (Msg_unknown_step current_step)),
      resp_options = None, resp_success = None, resp_processing = None,
      resp_restart_needed = True, resp_cancelled = False,
      resp_browser_opened = None, resp_booking_info = None,
      resp_restaurant_url = None, resp_phone_number = None,
      resp_booking_result = None\<rparr>"

definition process_reservation_step ::
  "pylib \<Rightarrow> world \<Rightarrow> agent \<Rightarrow> ustr \<Rightarrow> ustr \<Rightarrow> (response \<times> agent) option" where
  "process_reservation_step lib w ag session_id user_input =
     (case reservation_sessions ag session_id of
        None \<Rightarrow> Some (session_not_found, ag)
      | Some sess \<Rightarrow>
         (case s_step sess of
            initial \<Rightarrow>
              Some (handle_datetime_input lib w
                      (put_session ag session_id (sess\<lparr>s_step := datetime_input\<rparr>))
                      session_id user_input)
          | datetime_input \<Rightarrow> Some (handle_datetime_input lib w ag session_id user_input)
          | party_size_input \<Rightarrow> Some (handle_party_size_input lib ag session_id user_input)
          | contact_info_input \<Rightarrow>
              Some (handle_contact_info_input lib ag session_id user_input)
          | email_input \<Rightarrow> Some (handle_email_input ag session_id user_input)
          | special_requests_input \<Rightarrow>
              Some (handle_special_requests_input lib ag session_id user_input)
          | confirmation \<Rightarrow> handle_confirmation lib w ag session_id user_input
          | current_step \<Rightarrow> Some (unknown_step session_id current_step, ag)))"

datatype availability_status = Status_available | Status_not_available

text \<open>The dictionary \<open>start_reservation\<close> returns.\<close>

record start_response =
  sr_session_id :: ustr
  sr_message :: message
  sr_step :: "step option"
  sr_availability_status :: availability_status
  sr_availability_method :: "booking_method option"
  sr_alternative_methods :: "alternative_method list option"
  sr_options :: "menu_option list option"
  sr_end_session :: bool

text \<open>The session id: the last fifty characters of the place id (or \<open>'default'\<close>), the
  clock and the identity of the agent, joined by underscores.\<close>

definition make_session_id :: "world \<Rightarrow> restaurant \<Rightarrow> ustr" where
  "make_session_id w restaurant =
     (let full = get_or (rest_place_id restaurant) (asc ''default'') @ asc ''_''
                 @ w_clock_text w @ asc ''_'' @ w_object_id w
      in drop (length full - 50) full)"

text \<open>
  \<open>start_reservation\<close>. For a restaurant assessed as not available the function returns
  before the session is stored.
\<close>

definition start_reservation ::
  "pylib \<Rightarrow> world \<Rightarrow> agent \<Rightarrow> restaurant \<Rightarrow> start_response \<times> agent" where
  "start_reservation lib w ag restaurant =
     (let session_id = make_session_id w restaurant;
          availability = check_restaurant_booking_availability lib restaurant
      in if \<not> available availability then
           (\<lparr>sr_session_id = session_id,
             sr_message = Msg_not_available (rest_name restaurant) (av_reason availability)
                            (case av_phone_number availability of
                               None \<Rightarrow> None
                             | Some p \<Rightarrow> if p = [] then None else Some p)
                            (case av_alternative_methods availability of
                               None \<Rightarrow> None
                             | Some ms \<Rightarrow> if ms = [] then None else Some ms),
             sr_step = None,
             sr_availability_status = Status_not_available,
             sr_availability_method = None,
             sr_alternative_methods = Some (get_or (av_alternative_methods availability) []),
             sr_options = None,
             sr_end_session = True\<rparr>, ag)
         else
           (\<lparr>sr_session_id = session_id,
             sr_message = Msg_reservation_started (rest_name restaurant)
                            (rest_address restaurant) (rest_phone_number restaurant),
             sr_step = Some datetime_input,
             sr_availability_status = Status_available,
             sr_availability_method = av_method availability,
             sr_alternative_methods = None,
             sr_options = Some datetime_options,
             sr_end_session = False\<rparr>,
            put_session ag session_id
              \<lparr>s_restaurant = restaurant,
               s_data = \<lparr>d_datetime = None, d_party_size = None, d_contact = None,
                         d_email = None, d_special_requests = None\<rparr>,
               s_step = initial,
               s_availability = availability,
               s_booking_result = None\<rparr>))"

text \<open>\<open>get_session_status\<close>\<close>

datatype status_reply =
    Status_not_found               \<comment> \<open>\<open>{'error': session not found}\<close>\<close>
  | Status_of step reservation_data restaurant

definition get_session_status :: "agent \<Rightarrow> ustr \<Rightarrow> status_reply" where
  "get_session_status ag session_id =
     (case reservation_sessions ag session_id of
        None \<Rightarrow> Status_not_found
      | Some sess \<Rightarrow> Status_of (s_step sess) (s_data sess) (s_restaurant sess))"

text \<open>\<open>cancel_session\<close>\<close>

datatype cancel_reply = Cancel_done | Cancel_not_found

definition cancel_session :: "agent \<Rightarrow> ustr \<Rightarrow> cancel_reply \<times> agent" where
  "cancel_session ag session_id =
     (if session_id \<in> dom (reservation_sessions ag) then
        (Cancel_done,
         ag\<lparr>reservation_sessions := (reservation_sessions ag)(session_id := None)\<rparr>)
      else (Cancel_not_found, ag))"

text \<open>The agent as \<open>__init__\<close> and the module-level services leave it.\<close>

definition new_agent :: agent where
  "new_agent = \<lparr>reservation_sessions = Map.empty, tabelog_service = new_service,
                 toreta_service = new_service\<rparr>"

text \<open>
  The states of the agent that the operations can produce, for a fixed standard library:
  from the new agent, by starting sessions, processing turns and cancelling, whatever the
  world shows at each call.
\<close>

inductive reachable :: "pylib \<Rightarrow> agent \<Rightarrow> bool" for lib :: pylib where
  reach_new: "reachable lib new_agent"
| reach_start: "reachable lib ag \<Longrightarrow> reachable lib (snd (start_reservation lib w ag restaurant))"
| reach_step: "reachable lib ag \<Longrightarrow>
               process_reservation_step lib w ag session_id user_input = Some (r, ag') \<Longrightarrow>
               reachable lib ag'"
| reach_cancel: "reachable lib ag \<Longrightarrow> reachable lib (snd (cancel_session ag session_id))"


section \<open>A standard library and a world for the examples\<close>

text \<open>
  A parser for the format \<open>YYYY-MM-DDTHH:MM:SS\<close>, the one the prompt of the agent asks
  the language model for and the one the bulk form builds: it checks the ranges of the
  fields as \<open>datetime\<close> does and returns a naive value. The place of the value on the
  time line is the number written by the digits of the fields, which orders these values
  as the calendar does.
\<close>

text \<open>
  A lowercasing for text whose cased letters are ASCII or fullwidth Latin capitals: on
  such text, and on text without cased letters, it returns what \<open>str.lower()\<close> returns.
\<close>

definition ascii_lower_cp :: "nat \<Rightarrow> nat" where
  "ascii_lower_cp c = (if 65 \<le> c \<and> c \<le> 90 then c + 32
                       else if 65313 \<le> c \<and> c \<le> 65338 then c + 32
                       else c)"

definition ascii_lower :: "ustr \<Rightarrow> ustr" where
  "ascii_lower s = map ascii_lower_cp s"

text \<open>A keyword that \<open>ascii_lower\<close> cannot touch: none of its code points is a letter
  that \<open>ascii_lower_cp\<close> changes, nor the image of one.\<close>

definition caseless :: "ustr \<Rightarrow> bool" where
  "caseless kw =
     list_all (\<lambda>k. \<not> (65 \<le> k \<and> k \<le> 122) \<and> \<not> (65313 \<le> k \<and> k \<le> 65370)) kw"

text \<open>The ASCII digits and the fullwidth digits (U+FF10 to U+FF19), and the number a
  run of them writes.\<close>

definition is_basic_digit :: "nat \<Rightarrow> bool" where
  "is_basic_digit c = ((48 \<le> c \<and> c \<le> 57) \<or> (65296 \<le> c \<and> c \<le> 65305))"

definition basic_digit_value :: "nat \<Rightarrow> nat" where
  "basic_digit_value c = (if c \<le> 57 then c - 48 else c - 65296)"

definition number_of_digits :: "ustr \<Rightarrow> nat" where
  "number_of_digits ds = foldl (\<lambda>n c. 10 * n + basic_digit_value c) 0 ds"

definition basic_int :: "ustr \<Rightarrow> int option" where
  "basic_int s = (if s \<noteq> [] \<and> list_all is_basic_digit s
                  then Some (int (number_of_digits s)) else None)"

definition is_leap :: "nat \<Rightarrow> bool" where
  "is_leap y = (y mod 4 = 0 \<and> (y mod 100 \<noteq> 0 \<or> y mod 400 = 0))"

definition days_in_month :: "nat \<Rightarrow> nat \<Rightarrow> nat" where
  "days_in_month y m =
     (if m = 2 then (if is_leap y then 29 else 28)
      else if m \<in> set [4, 6, 9, 11] then 30 else 31)"

definition pat_iso_seconds :: matcher where
  "pat_iso_seconds =
     seqs [grp (rep is_ascii_digit 4 (Some 4)), lit (asc ''-''),
           grp (rep is_ascii_digit 2 (Some 2)), lit (asc ''-''),
           grp (rep is_ascii_digit 2 (Some 2)), lit (asc ''T''),
           grp (rep is_ascii_digit 2 (Some 2)), lit (asc '':''),
           grp (rep is_ascii_digit 2 (Some 2)), lit (asc '':''),
           grp (rep is_ascii_digit 2 (Some 2))]"

definition basic_fromisoformat :: "ustr \<Rightarrow> pydt option" where
  "basic_fromisoformat s =
     (case re_match pat_iso_seconds s of
        None \<Rightarrow> None
      | Some m \<Rightarrow>
          (let y = number_of_digits (group m 1); mo = number_of_digits (group m 2);
               d = number_of_digits (group m 3); h = number_of_digits (group m 4);
               mi = number_of_digits (group m 5); sec = number_of_digits (group m 6)
           in if fst m = s \<and> 1 \<le> y \<and> 1 \<le> mo \<and> mo \<le> 12 \<and> 1 \<le> d
                 \<and> d \<le> days_in_month y mo \<and> h < 24 \<and> mi < 60 \<and> sec < 60
              then Some (Naive (int (((((y * 100 + mo) * 100 + d) * 100 + h) * 100 + mi)
                                      * 100 + sec)))
              else None))"

text \<open>The decimal digits of a number, padded with zeros to a width.\<close>

fun pad_digits :: "nat \<Rightarrow> nat \<Rightarrow> ustr" where
  "pad_digits 0 n = []"
| "pad_digits (Suc k) n = pad_digits k (n div 10) @ [48 + n mod 10]"

definition instant :: "pydt \<Rightarrow> nat" where
  "instant dt = (case dt of Naive t \<Rightarrow> nat t | Aware t \<Rightarrow> nat t)"

definition basic_strftime_date :: "pydt \<Rightarrow> ustr" where
  "basic_strftime_date dt =
     (let n = instant dt div 1000000
      in pad_digits 4 (n div 10000) @ asc ''-'' @ pad_digits 2 (n div 100 mod 100)
         @ asc ''-'' @ pad_digits 2 (n mod 100))"

definition basic_strftime_time :: "pydt \<Rightarrow> ustr" where
  "basic_strftime_time dt =
     (let n = instant dt mod 1000000
      in pad_digits 2 (n div 10000) @ asc '':'' @ pad_digits 2 (n div 100 mod 100))"

text \<open>The network location of an address: what stands between \<open>//\<close> and the next slash,
  question mark or hash.\<close>

definition basic_netloc :: urlparser where
  "basic_netloc url =
     (case re_search (seqs [lit (asc ''//''), grp (rep (\<lambda>c. c \<notin> set (asc ''/?#'')) 0 None)]) url of
        None \<Rightarrow> Some []
      | Some m \<Rightarrow> Some (group m 1))"

text \<open>The library of the examples. Its inputs there are ASCII or Japanese text, on which
  each of its functions returns what the function of Python returns.\<close>

definition example_lib :: pylib where
  "example_lib = \<lparr>str_lower = ascii_lower, is_decimal = is_basic_digit,
                   str_isdigit = (\<lambda>s. s \<noteq> [] \<and> list_all is_basic_digit s),
                   py_int = basic_int,
                   fromisoformat = basic_fromisoformat, strftime_date = basic_strftime_date,
                   strftime_time = basic_strftime_time, netloc = basic_netloc\<rparr>"

text \<open>A Tabelog page that passes both gates, with no field helper succeeding (the
  calendar shows another month and offers no next one), and a Toreta page on which every
  step succeeds.\<close>

definition open_tabelog_page :: tabelog_page where
  "open_tabelog_page =
     \<lparr>tb_init = Init_ok, tb_url_after_open = asc ''https://tabelog.com/tokyo/A1301/1/'',
      tb_gate_phone = Returns None, tb_entry_visible = (\<lambda>i. i = 0),
      tb_fallback_phone = Returns None, tb_click = Returns (),
      tb_url_after_click = asc ''https://tabelog.com/tokyo/A1301/1/reserve'',
      tb_date_before_calendar = None, tb_calendar = (\<lambda>i. Cal_other_month_no_next),
      tb_day_clicked = False, tb_select_time = False, tb_select_party_size = False,
      tb_skip_course_selection = True, tb_skip_seat_selection = True,
      tb_fill_customer_info = False\<rparr>"

definition smooth_toreta_page :: toreta_page where
  "smooth_toreta_page =
     \<lparr>tr_init = Init_ok, tr_open = Returns (), tr_date_selected = True,
      tr_party_try = (\<lambda>i. Party_selected), tr_time_try = (\<lambda>i. Time_clicked),
      tr_info_filled = True, tr_confirm = Confirm_completed Rid_timestamp\<rparr>"

text \<open>A world on the first of January 2025 at midnight, in which the language model
  answers with the nineteenth hour of the next day.\<close>

definition example_world :: world where
  "example_world =
     \<lparr>w_now = 20250101000000, w_clock_text = asc ''20250101_000000'',
      w_object_id = asc ''140001'',
      w_llm = Llm_content (asc ''2025-01-02T19:00:00''),
      w_tabelog = open_tabelog_page, w_toreta = smooth_toreta_page\<rparr>"


text \<open>The arguments of the driver runs of the examples.\<close>

definition example_tabelog_url :: ustr where
  "example_tabelog_url = asc ''https://tabelog.com/tokyo/A1301/1/''"

definition example_toreta_url :: ustr where
  "example_toreta_url = asc ''https://yoyaku.toreta.in/example''"

definition example_customer :: customer_info where
  "example_customer = \<lparr>cust_name = asc ''Tanaka'', cust_phone = asc ''090-1234-5678'',
                        cust_email = Some (asc ''tanaka@example.com''),
                        cust_special_requests = None\<rparr>"

text \<open>A Toreta page on which the date cannot be selected, everything else as on the
  page where every step succeeds.\<close>

definition toreta_page_without_date :: toreta_page where
  "toreta_page_without_date = smooth_toreta_page\<lparr>tr_date_selected := False\<rparr>"



definition example_date :: ustr where "example_date = asc ''2025-01-02''"
definition example_time :: ustr where "example_time = asc ''19:00''"

text \<open>A service after one complete \<open>initialize\<close>.\<close>

definition launched_service :: service where
  "launched_service = \<lparr>svc_playwright = True, svc_browser = Browser_open, svc_page = True,
                        svc_launches = 1\<rparr>"


text \<open>The test of \<open>_handle_datetime_input\<close> for a bulk form.\<close>

definition bulk_form_input :: "ustr \<Rightarrow> bool" where
  "bulk_form_input user_input =
     (prefix label_datetime user_input \<and> contains label_party user_input
      \<and> contains label_name user_input)"

text \<open>
  Calls of \<open>process_reservation_step\<close> and \<open>cancel_session\<close> one after the other, each
  with the world it observes: the agent after the last call, and \<open>None\<close> when one of
  the calls does not return.
\<close>

datatype later_call = Call_step world ustr ustr | Call_cancel ustr

fun run_calls :: "pylib \<Rightarrow> agent \<Rightarrow> later_call list \<Rightarrow> agent option" where
  "run_calls lib ag [] = Some ag"
| "run_calls lib ag (Call_step w session_id user_input # calls) =
     (case process_reservation_step lib w ag session_id user_input of
        None \<Rightarrow> None
      | Some (r, ag') \<Rightarrow> run_calls lib ag' calls)"
| "run_calls lib ag (Call_cancel session_id # calls) =
     run_calls lib (snd (cancel_session ag session_id)) calls"

text \<open>The reply 'cancel' of the confirmation menu, as the source writes it: a cross mark,
  a space and 'kyanseru'.\<close>

definition cancel_reply_text :: ustr where
  "cancel_reply_text = [10060, 32, 12461, 12515, 12531, 12475, 12523]"

(*PROPERTIES*)

section \<open>Properties of the availability assessor\<close>

lemma ascii_lower_cp_caseless:
  "caseless (k # kw) \<Longrightarrow> k = ascii_lower_cp c \<longleftrightarrow> k = c"
  by (auto simp: caseless_def ascii_lower_cp_def split: if_splits)

lemma prefix_ascii_lower_caseless:
  assumes "caseless kw"
  shows "prefix kw (ascii_lower s) = prefix kw s"
  using assms
proof (induction kw arbitrary: s)
  case Nil
  then show ?case by simp
next
  case (Cons k kw)
  from Cons.prems have ck: "caseless kw" by (simp add: caseless_def)
  show ?case
  proof (cases s)
    case Nil
    then show ?thesis by (simp add: ascii_lower_def)
  next
    case (Cons c cs)
    have "k = ascii_lower_cp c \<longleftrightarrow> k = c"
      by (rule ascii_lower_cp_caseless[OF Cons.prems])
    with Cons Cons.IH[OF ck, of cs] show ?thesis by (simp add: ascii_lower_def)
  qed
qed

lemma contains_ascii_lower_caseless:
  assumes "caseless kw"
  shows "contains kw (ascii_lower s) = contains kw s"
proof (induction s)
  case Nil
  then show ?case by (simp add: ascii_lower_def)
next
  case (Cons c cs)
  have "prefix kw (ascii_lower (c # cs)) = prefix kw (c # cs)"
    by (rule prefix_ascii_lower_caseless[OF assms])
  with Cons show ?case by (simp add: ascii_lower_def)
qed

lemma any_in_ascii_lower_caseless:
  "list_all caseless ks \<Longrightarrow> any_in ks (ascii_lower s) = any_in ks s"
  by (induction ks) (simp_all add: any_in_def contains_ascii_lower_caseless)

lemma chain_caseless: "list_all caseless chain_restaurants"
  by (simp add: chain_restaurants_def caseless_def)

lemma exclusive_caseless: "list_all caseless exclusive_phone_only"
  by (simp add: exclusive_phone_only_def caseless_def)

lemma example_lib_lower [simp]: "str_lower example_lib = ascii_lower"
  by (simp add: example_lib_def)

lemma example_lower_chain:
  "any_in chain_restaurants (str_lower example_lib s) = any_in chain_restaurants s"
  by (simp add: any_in_ascii_lower_caseless[OF chain_caseless])

lemma example_lower_exclusive:
  "any_in exclusive_phone_only (str_lower example_lib s) = any_in exclusive_phone_only s"
  by (simp add: any_in_ascii_lower_caseless[OF exclusive_caseless])

lemma example_lower_empty: "str_lower example_lib [] = []"
  by (simp add: ascii_lower_def)

lemma reservation_keywords_nonempty: "\<not> any_in reservation_keywords []"
  by (simp add: any_in_def reservation_keywords_def asc_def)

lemmas assessor_eval =
  check_restaurant_booking_availability_def r_name_def r_phone_def r_website_def
  get_or_def ascii_lower_def ascii_lower_cp_def any_in_def chain_restaurants_def
  exclusive_phone_only_def reservation_keywords_def asc_def

text \<open>
  C1, as the claim states it, fails: a restaurant that is no chain, has a phone, has no
  luxury keyword in its name and whose website does not contain any of the four keywords
  as written falls under rule (4) of the claim, yet the assessor answers with rule (2)
  (confidence 0.9, no fallback phone), because it searches the lowercased website. The
  name and the website of the record are ASCII text, which the library of the examples
  lowers as \<open>str.lower()\<close> does.
\<close>

theorem website_keyword_case_counterexample:
  "\<not> any_in chain_restaurants (r_name bistro_upper_case_site)
   \<and> \<not> any_in reservation_keywords (r_website bistro_upper_case_site)
   \<and> r_phone bistro_upper_case_site \<noteq> []
   \<and> \<not> any_in exclusive_phone_only (r_name bistro_upper_case_site)
   \<and> av_confidence (check_restaurant_booking_availability example_lib bistro_upper_case_site)
       = Some 0.9
   \<and> av_fallback_phone (check_restaurant_booking_availability example_lib bistro_upper_case_site)
       = None"
  by (simp add: assessor_eval bistro_upper_case_site_def)

text \<open>
  C1 (amended): the decision table is evaluated in order, first match wins, on the name,
  phone number and website of the record:
  (1) name contains a chain keyword and phone or website is non-empty: available,
      web_form, confidence 0.8;
  (2) otherwise the website, compared case-insensitively (lowercased by \<open>str.lower()\<close>),
      contains 'reservation', 'yoyaku' (in kanji), 'booking' or 'table': available,
      web_form, confidence 0.9;
  (3) otherwise phone present and name contains an exclusive phone-only keyword:
      unavailable, phone_only, with the phone and the alternative channels;
  (4) otherwise phone present: available, web_form, confidence 0.7, fallback_phone the phone;
  (5) otherwise unavailable, reason insufficient information.
  The table holds for every lowercasing function with these three properties of
  \<open>str.lower()\<close>: lowercasing a text neither creates nor destroys an occurrence of a chain
  keyword, nor of an exclusive phone-only keyword (the keywords are kana and kanji, which
  have no case and are the lowercase of nothing), and the empty text is lowered to itself.
  The code searches the keywords in the lowercased name; by the first two properties that
  is the search in the name as given.
\<close>

theorem availability_decision_table:
  fixes lib :: pylib and r :: restaurant
  assumes chain: "\<And>s. any_in chain_restaurants (str_lower lib s) = any_in chain_restaurants s"
    and excl: "\<And>s. any_in exclusive_phone_only (str_lower lib s) = any_in exclusive_phone_only s"
    and empty: "str_lower lib [] = []"
  shows
  "(any_in chain_restaurants (r_name r) \<and> (r_phone r \<noteq> [] \<or> r_website r \<noteq> []) \<longrightarrow>
      available (check_restaurant_booking_availability lib r)
      \<and> av_method (check_restaurant_booking_availability lib r) = Some web_form
      \<and> av_confidence (check_restaurant_booking_availability lib r) = Some 0.8)
   \<and> (\<not> (any_in chain_restaurants (r_name r) \<and> (r_phone r \<noteq> [] \<or> r_website r \<noteq> []))
        \<and> any_in reservation_keywords (str_lower lib (r_website r)) \<longrightarrow>
      available (check_restaurant_booking_availability lib r)
      \<and> av_method (check_restaurant_booking_availability lib r) = Some web_form
      \<and> av_confidence (check_restaurant_booking_availability lib r) = Some 0.9)
   \<and> (\<not> (any_in chain_restaurants (r_name r) \<and> (r_phone r \<noteq> [] \<or> r_website r \<noteq> []))
        \<and> \<not> any_in reservation_keywords (str_lower lib (r_website r))
        \<and> r_phone r \<noteq> [] \<and> any_in exclusive_phone_only (r_name r) \<longrightarrow>
      \<not> available (check_restaurant_booking_availability lib r)
      \<and> av_method (check_restaurant_booking_availability lib r) = Some phone_only
      \<and> av_phone_number (check_restaurant_booking_availability lib r) = Some (r_phone r)
      \<and> av_alternative_methods (check_restaurant_booking_availability lib r) =
          Some [Alt_call_directly (r_phone r), Alt_booking_sites, Alt_visit_store])
   \<and> (\<not> (any_in chain_restaurants (r_name r) \<and> (r_phone r \<noteq> [] \<or> r_website r \<noteq> []))
        \<and> \<not> any_in reservation_keywords (str_lower lib (r_website r))
        \<and> r_phone r \<noteq> [] \<and> \<not> any_in exclusive_phone_only (r_name r) \<longrightarrow>
      available (check_restaurant_booking_availability lib r)
      \<and> av_method (check_restaurant_booking_availability lib r) = Some web_form
      \<and> av_confidence (check_restaurant_booking_availability lib r) = Some 0.7
      \<and> av_fallback_phone (check_restaurant_booking_availability lib r) = Some (r_phone r))
   \<and> (\<not> (any_in chain_restaurants (r_name r) \<and> (r_phone r \<noteq> [] \<or> r_website r \<noteq> []))
        \<and> \<not> any_in reservation_keywords (str_lower lib (r_website r))
        \<and> r_phone r = [] \<longrightarrow>
      \<not> available (check_restaurant_booking_availability lib r)
      \<and> av_method (check_restaurant_booking_availability lib r) = None
      \<and> av_reason (check_restaurant_booking_availability lib r) = Some Reason_insufficient_info)"
proof -
  have web: "r_website r = [] \<Longrightarrow> \<not> any_in reservation_keywords (str_lower lib (r_website r))"
    by (simp add: empty reservation_keywords_nonempty)
  have unfold: "check_restaurant_booking_availability lib r =
    (if any_in chain_restaurants (r_name r) \<and> (r_website r \<noteq> [] \<or> r_phone r \<noteq> []) then
         \<lparr>available = True, av_method = Some web_form,
          av_method_description = Some Desc_chain, av_confidence = Some 0.8,
          av_reason = None, av_phone_number = None, av_fallback_phone = None,
          av_alternative_methods = None\<rparr>
       else if r_website r \<noteq> [] \<and> any_in reservation_keywords (str_lower lib (r_website r)) then
         \<lparr>available = True, av_method = Some web_form,
          av_method_description = Some Desc_website_form, av_confidence = Some 0.9,
          av_reason = None, av_phone_number = None, av_fallback_phone = None,
          av_alternative_methods = None\<rparr>
       else if r_phone r \<noteq> [] then
         (if any_in exclusive_phone_only (r_name r) then
            \<lparr>available = False, av_method = Some phone_only,
             av_method_description = None, av_confidence = None,
             av_reason = Some Reason_phone_only_upscale,
             av_phone_number = Some (r_phone r), av_fallback_phone = None,
             av_alternative_methods =
               Some [Alt_call_directly (r_phone r), Alt_booking_sites, Alt_visit_store]\<rparr>
          else
            \<lparr>available = True, av_method = Some web_form,
             av_method_description = Some Desc_web_or_phone, av_confidence = Some 0.7,
             av_reason = None, av_phone_number = None,
             av_fallback_phone = Some (r_phone r),
             av_alternative_methods = None\<rparr>)
       else
         \<lparr>available = False, av_method = None,
          av_method_description = None, av_confidence = None,
          av_reason = Some Reason_insufficient_info,
          av_phone_number = None, av_fallback_phone = None,
          av_alternative_methods = Some [Alt_official_site, Alt_visit_store]\<rparr>)"
    unfolding check_restaurant_booking_availability_def Let_def
      r_name_def[symmetric] r_phone_def[symmetric] r_website_def[symmetric] chain excl
    by (rule refl)
  show ?thesis
    using web by (auto simp: unfold)
qed

text \<open>The two examples of the specification, obtained from the table with the library of
  the examples, whose lowercasing has the three properties.\<close>

theorem availability_decision_table_witness:
  "available (check_restaurant_booking_availability example_lib kura_sushi_shibuya)
   \<and> av_method (check_restaurant_booking_availability example_lib kura_sushi_shibuya)
       = Some web_form
   \<and> av_confidence (check_restaurant_booking_availability example_lib kura_sushi_shibuya)
       = Some 0.8
   \<and> \<not> available (check_restaurant_booking_availability example_lib kaiseki_hanami)
   \<and> av_method (check_restaurant_booking_availability example_lib kaiseki_hanami)
       = Some phone_only
   \<and> av_phone_number (check_restaurant_booking_availability example_lib kaiseki_hanami)
       = Some (asc ''03-0000-0000'')"
proof -
  have k: "any_in chain_restaurants (r_name kura_sushi_shibuya)
           \<and> (r_phone kura_sushi_shibuya \<noteq> [] \<or> r_website kura_sushi_shibuya \<noteq> [])"
    by (simp add: kura_sushi_shibuya_def r_name_def r_phone_def r_website_def get_or_def
        any_in_def chain_restaurants_def asc_def)
  have h: "\<not> (any_in chain_restaurants (r_name kaiseki_hanami)
               \<and> (r_phone kaiseki_hanami \<noteq> [] \<or> r_website kaiseki_hanami \<noteq> []))
           \<and> \<not> any_in reservation_keywords (str_lower example_lib (r_website kaiseki_hanami))
           \<and> r_phone kaiseki_hanami \<noteq> []
           \<and> any_in exclusive_phone_only (r_name kaiseki_hanami)"
    by (simp add: kaiseki_hanami_def r_name_def r_phone_def r_website_def get_or_def
        any_in_def chain_restaurants_def exclusive_phone_only_def reservation_keywords_def
        ascii_lower_def asc_def)
  have p: "r_phone kaiseki_hanami = asc ''03-0000-0000''"
    by (simp add: kaiseki_hanami_def r_phone_def get_or_def)
  from availability_decision_table[of example_lib kura_sushi_shibuya,
         OF example_lower_chain example_lower_exclusive example_lower_empty] k
       availability_decision_table[of example_lib kaiseki_hanami,
         OF example_lower_chain example_lower_exclusive example_lower_empty] h p
  show ?thesis by metis
qed


section \<open>Properties of the site automation drivers\<close>

lemma open_page_date: "select_date open_tabelog_page = Some False"
  by (simp add: select_date_def open_tabelog_page_def find_month.simps)






lemma toreta_service:
  "toreta_make_reservation page svc url d t n c = (r, svc', lg) \<Longrightarrow>
     svc' = fst (initialize (tr_init page) svc)"
  by (auto simp: toreta_make_reservation_def Let_def split: prod.splits if_splits)

lemma gates_open:
  "tabelog_gates basic_netloc open_tabelog_page new_service example_tabelog_url
     example_date example_time (Some 2) example_customer = Inr launched_service"
  by code_simp


lemma prefilled_flags:
  "br_semi_automated (prefilled_result url d t n c) \<and> br_browser_opened (prefilled_result url d t n c)
   \<and> \<not> br_success (prefilled_result url d t n c) \<and> br_error (prefilled_result url d t n c) = None"
  by (simp add: prefilled_result_def Let_def)




lemma time_party_independent:
  "fst (select_time_and_party_toreta (page\<lparr>tr_party_try := f\<rparr>))
     = fst (select_time_and_party_toreta page)"
  by (simp add: select_time_and_party_toreta_def Let_def)

text \<open>
  C4, as the claim states it, fails: on a Toreta page on which everything succeeds but
  the selection of the date, the run ends with the failure of the date step, which is
  neither a success, nor a semi-automated result, nor a submission failure.
\<close>

theorem toreta_date_failure_aborts_counterexample:
  "br_error (fst (toreta_make_reservation toreta_page_without_date new_service
       example_toreta_url example_date example_time (Some 2) example_customer))
     = Some Err_date_selection_failed
   \<and> \<not> br_success (fst (toreta_make_reservation toreta_page_without_date new_service
       example_toreta_url example_date example_time (Some 2) example_customer))
   \<and> \<not> br_semi_automated (fst (toreta_make_reservation toreta_page_without_date new_service
       example_toreta_url example_date example_time (Some 2) example_customer))"
  by code_simp

text \<open>
  C4 (amended): in the Tabelog driver, once the bot-detection and entry-point gates have
  passed, population of the date, time and party-size fields is best-effort and
  independent: each of the three is attempted and logged with its own outcome whatever
  the others returned, and a run in which the date helper returns ends in the
  semi-automated result. In the Toreta driver, once the page is open, only the selection
  of the party size is best-effort (the result does not depend on it); a failed selection
  of the date, a failed selection of the time or a failed input of the customer
  information ends the run with the failure result of that step, and otherwise the run
  ends in a success, a submission-failure or a submission-error result.
\<close>

theorem field_population_by_driver:
  "(tabelog_gates nl page svc url d t n c = Inr svc' \<and> select_date page = Some ds \<longrightarrow>
      tabelog_make_reservation nl page svc url d t n c
        = Some (prefilled_result url d t n c, svc', tabelog_prefill page ds)
      \<and> br_semi_automated (prefilled_result url d t n c)
      \<and> br_browser_opened (prefilled_result url d t n c)
      \<and> \<not> br_success (prefilled_result url d t n c)
      \<and> tabelog_prefill page ds ! 0 = (if ds then Log_date_filled else Log_date_by_hand)
      \<and> tabelog_prefill page ds ! 1
          = (if tb_select_time page then Log_time_filled else Log_time_by_hand)
      \<and> tabelog_prefill page ds ! 2
          = (if tb_select_party_size page then Log_party_filled else Log_party_by_hand))
   \<and> (initialize (tr_init tpage) tsvc = (tsvc', True) \<and> is_toreta_url turl \<and> svc_page tsvc'
        \<and> tr_open tpage = Returns () \<longrightarrow>
      (\<not> tr_date_selected tpage \<longrightarrow>
         fst (toreta_make_reservation tpage tsvc turl d t n c)
           = failure_result Err_date_selection_failed (Dmsg_date_unavailable d))
      \<and> (tr_date_selected tpage \<and> \<not> fst (select_time_and_party_toreta tpage) \<longrightarrow>
         fst (toreta_make_reservation tpage tsvc turl d t n c)
           = failure_result Err_time_party_selection_failed (Dmsg_time_party_unavailable t n))
      \<and> (tr_date_selected tpage \<and> fst (select_time_and_party_toreta tpage)
            \<and> \<not> tr_info_filled tpage \<longrightarrow>
         fst (toreta_make_reservation tpage tsvc turl d t n c)
           = failure_result Err_customer_info_failed Dmsg_customer_info_failed)
      \<and> (tr_date_selected tpage \<and> fst (select_time_and_party_toreta tpage)
            \<and> tr_info_filled tpage \<longrightarrow>
         br_success (fst (toreta_make_reservation tpage tsvc turl d t n c))
         \<or> fst (toreta_make_reservation tpage tsvc turl d t n c)
             = failure_result Err_submission_failed Dmsg_submission_failed
         \<or> fst (toreta_make_reservation tpage tsvc turl d t n c)
             = failure_result Err_submission_error Dmsg_exception_text)
      \<and> fst (toreta_make_reservation (tpage\<lparr>tr_party_try := f\<rparr>) tsvc turl d t n c)
          = fst (toreta_make_reservation tpage tsvc turl d t n c))"
proof -
  have tb: "tabelog_gates nl page svc url d t n c = Inr svc' \<and> select_date page = Some ds \<longrightarrow>
      tabelog_make_reservation nl page svc url d t n c
        = Some (prefilled_result url d t n c, svc', tabelog_prefill page ds)"
    by (simp add: tabelog_make_reservation_def)
  have lg: "tabelog_prefill page ds ! 0 = (if ds then Log_date_filled else Log_date_by_hand)
      \<and> tabelog_prefill page ds ! 1
          = (if tb_select_time page then Log_time_filled else Log_time_by_hand)
      \<and> tabelog_prefill page ds ! 2
          = (if tb_select_party_size page then Log_party_filled else Log_party_by_hand)"
    by (simp add: tabelog_prefill_def)
  have tr: "initialize (tr_init tpage) tsvc = (tsvc', True) \<and> is_toreta_url turl \<and> svc_page tsvc'
        \<and> tr_open tpage = Returns () \<longrightarrow>
      (\<not> tr_date_selected tpage \<longrightarrow>
         fst (toreta_make_reservation tpage tsvc turl d t n c)
           = failure_result Err_date_selection_failed (Dmsg_date_unavailable d))
      \<and> (tr_date_selected tpage \<and> \<not> fst (select_time_and_party_toreta tpage) \<longrightarrow>
         fst (toreta_make_reservation tpage tsvc turl d t n c)
           = failure_result Err_time_party_selection_failed (Dmsg_time_party_unavailable t n))
      \<and> (tr_date_selected tpage \<and> fst (select_time_and_party_toreta tpage)
            \<and> \<not> tr_info_filled tpage \<longrightarrow>
         fst (toreta_make_reservation tpage tsvc turl d t n c)
           = failure_result Err_customer_info_failed Dmsg_customer_info_failed)
      \<and> (tr_date_selected tpage \<and> fst (select_time_and_party_toreta tpage)
            \<and> tr_info_filled tpage \<longrightarrow>
         br_success (fst (toreta_make_reservation tpage tsvc turl d t n c))
         \<or> fst (toreta_make_reservation tpage tsvc turl d t n c)
             = failure_result Err_submission_failed Dmsg_submission_failed
         \<or> fst (toreta_make_reservation tpage tsvc turl d t n c)
             = failure_result Err_submission_error Dmsg_exception_text)"
    by (auto simp: toreta_make_reservation_def Let_def confirm_and_submit_toreta_def
        failure_result_def split: prod.splits confirm_outcome.splits)
  have ind: "fst (toreta_make_reservation (tpage\<lparr>tr_party_try := f\<rparr>) tsvc turl d t n c)
          = fst (toreta_make_reservation tpage tsvc turl d t n c)"
    using time_party_independent[where page = tpage and f = f]
    by (auto simp: toreta_make_reservation_def Let_def confirm_and_submit_toreta_def
        split: prod.splits)
  from tb lg tr ind prefilled_flags[of url d t n c] show ?thesis by blast
qed

text \<open>The theorem at the Tabelog page that passes both gates and at the Toreta page on which
  every step succeeds.\<close>

theorem field_population_by_driver_witness:
  "tabelog_make_reservation basic_netloc open_tabelog_page new_service example_tabelog_url
     example_date example_time (Some 2) example_customer
   = Some (prefilled_result example_tabelog_url example_date example_time (Some 2)
             example_customer,
           launched_service, tabelog_prefill open_tabelog_page False)
   \<and> tabelog_prefill open_tabelog_page False ! 1 = Log_time_by_hand
   \<and> br_success (fst (toreta_make_reservation smooth_toreta_page new_service
        example_toreta_url example_date example_time (Some 2) example_customer))"
proof -
  have init: "initialize (tr_init smooth_toreta_page) new_service = (launched_service, True)
              \<and> is_toreta_url example_toreta_url \<and> svc_page launched_service
              \<and> tr_open smooth_toreta_page = Returns ()"
    by code_simp
  have steps: "tr_date_selected smooth_toreta_page
               \<and> fst (select_time_and_party_toreta smooth_toreta_page)
               \<and> tr_info_filled smooth_toreta_page"
    by code_simp
  have no_failure:
    "fst (toreta_make_reservation smooth_toreta_page new_service example_toreta_url
            example_date example_time (Some 2) example_customer)
       \<noteq> failure_result Err_submission_failed Dmsg_submission_failed
     \<and> fst (toreta_make_reservation smooth_toreta_page new_service example_toreta_url
            example_date example_time (Some 2) example_customer)
       \<noteq> failure_result Err_submission_error Dmsg_exception_text"
    by code_simp
  have time: "\<not> tb_select_time open_tabelog_page"
    by (simp add: open_tabelog_page_def)
  from field_population_by_driver[of basic_netloc open_tabelog_page new_service
         example_tabelog_url example_date example_time "Some 2" example_customer
         launched_service False smooth_toreta_page new_service launched_service
         example_toreta_url]
       gates_open open_page_date init steps no_failure time
  show ?thesis by simp
qed

(*MORE*)

end
